theory Spec2Isabelle
  imports Complex_Main "HOL-Library.Word"
begin

unbundle bit_operations_syntax

section \<open>Single-precision values\<close>

text \<open>
  The firmware computes in C++ \<^verbatim>\<open>float\<close>.  The model keeps the part of IEEE 754
  arithmetic that the control flow of \<^verbatim>\<open>motor.cpp\<close> depends on: the special values
  (not-a-number and the two infinities), their propagation through the arithmetic
  operators, and comparisons that are false as soon as one side is not-a-number.
  Finite results are kept exact (a rational): rounding to 24 bits, overflow to
  infinity and the sign of zero are left out.  A decimal literal of the source that
  is not a binary fraction stands for the single-precision value it denotes
  (\<^verbatim>\<open>3.3f\<close> is \<open>13841203 / 2 ^ 22\<close>).  No statement below depends on the digits of a
  finite result: where a statement fixes which branch a comparison takes, one of its
  sides is not-a-number or infinite, or both sides are literals.
\<close>

datatype float = NaN | PInf | NInf | Fin rat

fun isnan :: "float \<Rightarrow> bool" where
  "isnan NaN = True"
| "isnan _ = False"

text \<open>A finite number is neither not-a-number nor an infinity (\<^verbatim>\<open>std::isfinite\<close>).\<close>

fun isfinite :: "float \<Rightarrow> bool" where
  "isfinite (Fin _) = True"
| "isfinite _ = False"

instantiation float :: "{plus, minus, uminus, times, inverse, abs, ord}"
begin

fun uminus_float :: "float \<Rightarrow> float" where
  "uminus_float NaN = NaN"
| "uminus_float PInf = NInf"
| "uminus_float NInf = PInf"
| "uminus_float (Fin a) = Fin (- a)"

fun plus_float :: "float \<Rightarrow> float \<Rightarrow> float" where
  "plus_float NaN _ = NaN"
| "plus_float _ NaN = NaN"
| "plus_float PInf NInf = NaN"
| "plus_float NInf PInf = NaN"
| "plus_float PInf _ = PInf"
| "plus_float _ PInf = PInf"
| "plus_float NInf _ = NInf"
| "plus_float _ NInf = NInf"
| "plus_float (Fin a) (Fin b) = Fin (a + b)"

definition minus_float :: "float \<Rightarrow> float \<Rightarrow> float" where
  "minus_float a b = a + (- b)"

fun times_float :: "float \<Rightarrow> float \<Rightarrow> float" where
  "times_float NaN _ = NaN"
| "times_float _ NaN = NaN"
| "times_float (Fin a) (Fin b) = Fin (a * b)"
| "times_float (Fin a) y = (if a = 0 then NaN else if 0 < a then y else - y)"
| "times_float x (Fin b) = (if b = 0 then NaN else if 0 < b then x else - x)"
| "times_float PInf y = y"
| "times_float NInf y = - y"

fun divide_float :: "float \<Rightarrow> float \<Rightarrow> float" where
  "divide_float NaN _ = NaN"
| "divide_float _ NaN = NaN"
| "divide_float (Fin a) (Fin b) =
     (if b = 0 then (if a = 0 then NaN else if 0 < a then PInf else NInf)
      else Fin (a / b))"
| "divide_float (Fin a) _ = Fin 0"
| "divide_float x (Fin b) = (if 0 \<le> b then x else - x)"
| "divide_float _ _ = NaN"

definition inverse_float :: "float \<Rightarrow> float" where
  "inverse_float a = divide (Fin 1) a"

fun abs_float :: "float \<Rightarrow> float" where
  "abs_float NaN = NaN"
| "abs_float PInf = PInf"
| "abs_float NInf = PInf"
| "abs_float (Fin a) = Fin \<bar>a\<bar>"

fun less_float :: "float \<Rightarrow> float \<Rightarrow> bool" where
  "less_float NaN _ = False"
| "less_float _ NaN = False"
| "less_float _ NInf = False"
| "less_float NInf _ = True"
| "less_float PInf _ = False"
| "less_float _ PInf = True"
| "less_float (Fin a) (Fin b) = (a < b)"

fun less_eq_float :: "float \<Rightarrow> float \<Rightarrow> bool" where
  "less_eq_float NaN _ = False"
| "less_eq_float _ NaN = False"
| "less_eq_float NInf _ = True"
| "less_eq_float _ NInf = False"
| "less_eq_float _ PInf = True"
| "less_eq_float PInf _ = False"
| "less_eq_float (Fin a) (Fin b) = (a \<le> b)"

instance ..

end

text \<open>\<^verbatim>\<open>std::min(a, b)\<close> is \<^verbatim>\<open>(b < a) ? b : a\<close>.\<close>

definition std_min :: "float \<Rightarrow> float \<Rightarrow> float" where
  "std_min a b = (if b < a then b else a)"

text \<open>The macro \<^verbatim>\<open>SQ(x)\<close> is \<^verbatim>\<open>((x) * (x))\<close>.\<close>

definition SQ :: "float \<Rightarrow> float" where
  "SQ x = x * x"

section \<open>Error bitmask\<close>

text \<open>
  \<^verbatim>\<open>Motor::Error\<close> is a bitmask enumeration declared in the generated interface
  header, which is not part of \<^verbatim>\<open>motor.cpp\<close>.  The model takes a mask as the set of
  its flag bits: \<^verbatim>\<open>ERROR_NONE\<close> is the empty set, each named error a singleton,
  and \<^verbatim>\<open>error_ |= e\<close> the union.
\<close>

datatype error_bit =
    PHASE_RESISTANCE_OUT_OF_RANGE
  | PHASE_INDUCTANCE_OUT_OF_RANGE
  | DRV_FAULT
  | CONTROL_DEADLINE_MISSED
  | CURRENT_SENSE_SATURATION
  | CURRENT_LIMIT_VIOLATION
  | TIMER_UPDATE_MISSED
  | CONTROLLER_FAILED
  | I_BUS_OUT_OF_RANGE
  | BRAKE_RESISTOR_DISARMED
  | UNKNOWN_VBUS_VOLTAGE
  | CONTROLLER_INITIALIZING
  | I_LEAK_OUT_OF_RANGE
  | OTHER_ERROR nat

type_synonym Error = "error_bit set"

abbreviation ERROR_NONE :: Error where
  "ERROR_NONE \<equiv> {}"

abbreviation ERROR_PHASE_RESISTANCE_OUT_OF_RANGE :: Error where
  "ERROR_PHASE_RESISTANCE_OUT_OF_RANGE \<equiv> {PHASE_RESISTANCE_OUT_OF_RANGE}"

abbreviation ERROR_PHASE_INDUCTANCE_OUT_OF_RANGE :: Error where
  "ERROR_PHASE_INDUCTANCE_OUT_OF_RANGE \<equiv> {PHASE_INDUCTANCE_OUT_OF_RANGE}"

abbreviation ERROR_DRV_FAULT :: Error where
  "ERROR_DRV_FAULT \<equiv> {DRV_FAULT}"

abbreviation ERROR_CONTROL_DEADLINE_MISSED :: Error where
  "ERROR_CONTROL_DEADLINE_MISSED \<equiv> {CONTROL_DEADLINE_MISSED}"

abbreviation ERROR_CURRENT_SENSE_SATURATION :: Error where
  "ERROR_CURRENT_SENSE_SATURATION \<equiv> {CURRENT_SENSE_SATURATION}"

abbreviation ERROR_CURRENT_LIMIT_VIOLATION :: Error where
  "ERROR_CURRENT_LIMIT_VIOLATION \<equiv> {CURRENT_LIMIT_VIOLATION}"

abbreviation ERROR_TIMER_UPDATE_MISSED :: Error where
  "ERROR_TIMER_UPDATE_MISSED \<equiv> {TIMER_UPDATE_MISSED}"

abbreviation ERROR_CONTROLLER_FAILED :: Error where
  "ERROR_CONTROLLER_FAILED \<equiv> {CONTROLLER_FAILED}"

abbreviation ERROR_I_BUS_OUT_OF_RANGE :: Error where
  "ERROR_I_BUS_OUT_OF_RANGE \<equiv> {I_BUS_OUT_OF_RANGE}"

abbreviation ERROR_BRAKE_RESISTOR_DISARMED :: Error where
  "ERROR_BRAKE_RESISTOR_DISARMED \<equiv> {BRAKE_RESISTOR_DISARMED}"

abbreviation ERROR_UNKNOWN_VBUS_VOLTAGE :: Error where
  "ERROR_UNKNOWN_VBUS_VOLTAGE \<equiv> {UNKNOWN_VBUS_VOLTAGE}"

abbreviation ERROR_CONTROLLER_INITIALIZING :: Error where
  "ERROR_CONTROLLER_INITIALIZING \<equiv> {CONTROLLER_INITIALIZING}"

abbreviation ERROR_I_LEAK_OUT_OF_RANGE :: Error where
  "ERROR_I_LEAK_OUT_OF_RANGE \<equiv> {I_LEAK_OUT_OF_RANGE}"

text \<open>
  A \<^verbatim>\<open>std::variant<T, Error>\<close>: alternative 0 holds the output, alternative 1 the
  error.
\<close>

datatype 'a variant = Output 'a | Failure Error

fun index :: "'a variant \<Rightarrow> nat" where
  "index (Output _) = 0"
| "index (Failure _) = 1"

section \<open>Constants of the board and collaborators outside the file\<close>

text \<open>
  \<^verbatim>\<open>motor.cpp\<close> uses macros and globals of the board support headers, and virtual
  functions of classes implemented elsewhere.  They are gathered in one record and
  every operation of the model takes it as its first argument, so that each theorem
  holds for every board and every external controller.
  \<^item> \<open>clarke\<close> and \<open>svm\<close> stand for the base class \<^verbatim>\<open>AlphaBetaFrameController\<close>, which
    turns the three phase currents into the alpha/beta pair given to
    \<^verbatim>\<open>on_measurement\<close>, and the alpha/beta output of \<^verbatim>\<open>get_alpha_beta_output\<close>
    into three PWM timings or an error.
  \<^item> \<open>ext_reset\<close>, \<open>ext_on_measurement\<close> and \<open>ext_get_output\<close> are the three virtual
    functions of a \<^verbatim>\<open>PhaseControlLaw<3>\<close> that is not one of the two laws of this
    file; its state is opaque (a number).
\<close>

datatype TimingLog_t =
    TIMING_LOG_UPDATE_START
  | TIMING_LOG_CURRENT_MEAS
  | TIMING_LOG_DC_CAL
  | TIMING_LOG_CTRL_DONE

record board =
  TIM_CR1_DIR :: "32 word"
  TIM_BDTR_AOE :: "32 word"
  TIM_BDTR_MOE :: "32 word"
  TIM_FLAG_UPDATE :: "32 word"
  CURRENT_ADC_LOWER_BOUND :: "32 word"
  CURRENT_ADC_UPPER_BOUND :: "32 word"
  TIM_1_8_PERIOD_CLOCKS :: nat
  TIM_1_8_RCR :: nat
  TIM_1_8_CLOCK_HZ :: nat
  current_meas_period :: float
  clocks_per_cnt :: "16 word"
  timing_log_slot :: "TimingLog_t \<Rightarrow> nat"
  TIMING_LOG_NUM_SLOTS :: nat
  clarke :: "float \<times> float \<times> float \<Rightarrow> float \<times> float"
  svm :: "float \<times> float \<Rightarrow> (float \<times> float \<times> float) variant"
  ext_reset :: "nat \<Rightarrow> nat"
  ext_on_measurement :: "nat \<Rightarrow> float \<Rightarrow> float \<times> float \<times> float \<Rightarrow> 32 word \<Rightarrow> Error \<times> nat"
  ext_get_output :: "nat \<Rightarrow> 32 word \<Rightarrow> (float \<times> float \<times> float) variant \<times> nat"

section \<open>The two measurement control laws\<close>

record ResistanceMeasurementCotnrolLaw =
  max_voltage :: float
  test_current :: float
  test_voltage :: float
  test_mod :: float

definition kI :: float where
  "kI = Fin 10"

text \<open>The default member initialisers of the \<^verbatim>\<open>struct\<close>.\<close>

definition ResistanceMeasurementCotnrolLaw_init :: ResistanceMeasurementCotnrolLaw where
  "ResistanceMeasurementCotnrolLaw_init =
     \<lparr>max_voltage = Fin 0, test_current = Fin 0, test_voltage = Fin 0, test_mod = NaN\<rparr>"

definition R_reset :: "ResistanceMeasurementCotnrolLaw \<Rightarrow> ResistanceMeasurementCotnrolLaw" where
  "R_reset r = r\<lparr>test_voltage := Fin 0, test_mod := NaN\<rparr>"

definition R_on_measurement ::
  "board \<Rightarrow> ResistanceMeasurementCotnrolLaw \<Rightarrow> float \<Rightarrow> float \<Rightarrow> float \<Rightarrow> 32 word
   \<Rightarrow> Error \<times> ResistanceMeasurementCotnrolLaw" where
  "R_on_measurement B r vbus_voltage Ialpha Ibeta input_timestamp =
     (let r1 = r\<lparr>test_voltage :=
                 test_voltage r + (kI * current_meas_period B) * (test_current r - Ialpha)\<rparr>
      in if max_voltage r1 < \<bar>test_voltage r1\<bar> then
           (ERROR_PHASE_RESISTANCE_OUT_OF_RANGE, r1\<lparr>test_voltage := NaN\<rparr>)
         else if isnan vbus_voltage then
           (ERROR_UNKNOWN_VBUS_VOLTAGE, r1)
         else
           (let vfactor = Fin 1 / ((Fin 2 / Fin 3) * vbus_voltage)
            in (ERROR_NONE, r1\<lparr>test_mod := test_voltage r1 * vfactor\<rparr>)))"

definition R_get_alpha_beta_output ::
  "ResistanceMeasurementCotnrolLaw \<Rightarrow> 32 word \<Rightarrow> (float \<times> float) variant" where
  "R_get_alpha_beta_output r output_timestamp =
     (if isnan (test_mod r) then Failure ERROR_CONTROLLER_INITIALIZING
      else Output (test_mod r, Fin 0))"

definition get_resistance :: "ResistanceMeasurementCotnrolLaw \<Rightarrow> float" where
  "get_resistance r = test_voltage r / test_current r"

text \<open>
  The inductance law has a field \<^verbatim>\<open>test_voltage\<close> of its own; it is \<open>L_test_voltage\<close>
  here, as two records cannot share a field name.
\<close>

record InductanceMeasurementCotnrolLaw =
  L_test_voltage :: float
  attached :: bool
  sign :: float
  start_timestamp :: "32 word"
  last_Ialpha :: float
  last_input_timestamp :: "32 word"
  deltaI :: float

definition InductanceMeasurementCotnrolLaw_init :: InductanceMeasurementCotnrolLaw where
  "InductanceMeasurementCotnrolLaw_init =
     \<lparr>L_test_voltage = Fin 0, attached = False, sign = Fin 0, start_timestamp = 0,
      last_Ialpha = NaN, last_input_timestamp = 0, deltaI = Fin 0\<rparr>"

definition L_reset :: "InductanceMeasurementCotnrolLaw \<Rightarrow> InductanceMeasurementCotnrolLaw" where
  "L_reset l = l\<lparr>attached := False\<rparr>"

definition L_on_measurement ::
  "InductanceMeasurementCotnrolLaw \<Rightarrow> float \<Rightarrow> float \<Rightarrow> float \<Rightarrow> 32 word
   \<Rightarrow> Error \<times> InductanceMeasurementCotnrolLaw" where
  "L_on_measurement l vbus_voltage Ialpha Ibeta input_timestamp =
     (if isnan Ialpha \<or> isnan vbus_voltage then (ERROR_UNKNOWN_VBUS_VOLTAGE, l)
      else
        (let l1 = (if attached l then
                     (let sign = (if Fin 0 \<le> L_test_voltage l then Fin 1 else Fin (- 1))
                      in l\<lparr>deltaI := deltaI l + (- sign) * (Ialpha - last_Ialpha l)\<rparr>)
                   else l\<lparr>start_timestamp := input_timestamp, attached := True\<rparr>)
         in (ERROR_NONE,
             l1\<lparr>last_Ialpha := Ialpha, last_input_timestamp := input_timestamp\<rparr>)))"

text \<open>
  \<^verbatim>\<open>get_alpha_beta_output\<close> of the inductance law reads the global \<^verbatim>\<open>vbus_voltage\<close>;
  the model passes it as an argument.
\<close>

definition L_get_alpha_beta_output ::
  "InductanceMeasurementCotnrolLaw \<Rightarrow> float \<Rightarrow> 32 word
   \<Rightarrow> (float \<times> float) variant \<times> InductanceMeasurementCotnrolLaw" where
  "L_get_alpha_beta_output l vbus_voltage output_timestamp =
     (let l1 = l\<lparr>L_test_voltage := L_test_voltage l * Fin (- 1)\<rparr>;
          vfactor = Fin 1 / ((Fin 2 / Fin 3) * vbus_voltage)
      in (Output (L_test_voltage l1 * vfactor, Fin 0), l1))"

definition get_inductance :: "board \<Rightarrow> InductanceMeasurementCotnrolLaw \<Rightarrow> float" where
  "get_inductance B l =
     (let dt = Fin (of_nat (unat (last_input_timestamp l - start_timestamp l)))
               / Fin (of_nat (TIM_1_8_CLOCK_HZ B))
      in \<bar>L_test_voltage l\<bar> / (deltaI l / dt))"

section \<open>The motor\<close>

text \<open>The registers of the timer peripheral \<^verbatim>\<open>timer_->Instance\<close> that the file touches.\<close>

record TIM_TypeDef =
  CR1 :: "32 word"
  SR :: "32 word"
  BDTR :: "32 word"
  CCR1 :: "32 word"
  CCR2 :: "32 word"
  CCR3 :: "32 word"

record Iph_ABC_t =
  phA :: float
  phB :: float
  phC :: float

datatype MotorType =
    MOTOR_TYPE_HIGH_CURRENT
  | MOTOR_TYPE_GIMBAL
  | MOTOR_TYPE_ACIM
  | MOTOR_TYPE_OTHER nat

record Config_t =
  phase_resistance :: float
  phase_inductance :: float
  dc_calib_tau :: float
  I_leak_max :: float
  current_lim_margin :: float
  I_bus_hard_min :: float
  I_bus_hard_max :: float
  motor_type :: MotorType
  calibration_current :: float
  resistance_calib_max_voltage :: float
  current_control_bandwidth :: float

record CurrentControl_t =
  p_gain :: float
  i_gain :: float

text \<open>
  A \<^verbatim>\<open>PhaseControlLaw<3>*\<close>: the address of a control-law object together with its
  dynamic type.  The objects live outside the motor (the calibration routines keep
  theirs on their stack), so the state holds them in three stores indexed by address;
  \<^verbatim>\<open>nullptr\<close> is \<open>None\<close>.
\<close>

datatype law_ptr = ResistanceLaw nat | InductanceLaw nat | ExternalLaw nat

datatype axis_state = AXIS_STATE_UNDEFINED | AXIS_STATE_OTHER nat

text \<open>
  Calls that leave the file: \<^verbatim>\<open>gate_driver_.set_enabled\<close>, \<^verbatim>\<open>gate_driver_.do_checks\<close>,
  \<^verbatim>\<open>update_brake_current\<close>, \<^verbatim>\<open>odrv.do_fast_checks\<close> and \<^verbatim>\<open>axis_->controller_.reset\<close>.
  The state keeps them in a list, in the order they are made.
\<close>

datatype call =
    GATE_DRIVER_SET_ENABLED bool
  | UPDATE_BRAKE_CURRENT
  | DO_FAST_CHECKS
  | AXIS_CONTROLLER_RESET
  | GATE_DRIVER_DO_CHECKS

text \<open>
  What a call of \<^verbatim>\<open>odrv.do_fast_checks\<close> asks of this motor: nothing, a disarm, or a
  disarm with an error.
\<close>

datatype fast_checks_outcome =
    NO_REQUEST
  | REQUEST_DISARM
  | REQUEST_DISARM_WITH_ERROR Error

text \<open>
  The members of \<^verbatim>\<open>Motor\<close> without their trailing underscore (an Isabelle name cannot
  end in one), followed by what the file reaches through pointers and globals, by
  what the collaborators answer, and by two histories.  \<open>error_writes\<close> is not a member
  of the class: it lists the values that have been OR-ed into \<^verbatim>\<open>error_\<close>, one for
  each execution of an assignment \<^verbatim>\<open>error_ |= e\<close>, so that a statement can speak of
  a write that leaves the mask as it was.
\<close>

record Motor =
  timer :: TIM_TypeDef
  current_sensor_mask :: "8 word"
  shunt_conductance :: float
  phase_current_rev_gain :: float
  max_dc_calib :: float
  effective_current_lim :: float
  config :: Config_t
  is_armed :: bool
  control_law :: "law_ptr option"
  error :: Error
  counting_down :: bool
  last_update_timestamp :: "32 word"
  DC_calib :: Iph_ABC_t
  dc_calib_running_since :: float
  current_meas :: Iph_ABC_t
  I_leak :: float
  I_bus :: float
  timing_log :: "nat \<Rightarrow> 16 word"
  is_calibrated :: bool
  current_control :: CurrentControl_t
  \<comment> \<open>globals\<close>
  brake_resistor_armed :: bool
  vbus_voltage :: float
  htim13_CNT :: "32 word"
  \<comment> \<open>\<^verbatim>\<open>axis_->requested_state_\<close> and \<^verbatim>\<open>axis_->async_estimator_.rotor_flux_\<close>\<close>
  requested_state :: axis_state
  rotor_flux :: float
  \<comment> \<open>the control-law objects\<close>
  R_laws :: "nat \<Rightarrow> ResistanceMeasurementCotnrolLaw"
  L_laws :: "nat \<Rightarrow> InductanceMeasurementCotnrolLaw"
  X_laws :: "nat \<Rightarrow> nat"
  \<comment> \<open>what \<^verbatim>\<open>gate_driver_.is_ready()\<close> returns, and what \<^verbatim>\<open>odrv.do_fast_checks()\<close> asks for\<close>
  gate_driver_ready :: bool
  fast_checks :: fast_checks_outcome
  \<comment> \<open>the calls made so far, and the values written into the error mask so far\<close>
  calls :: "call list"
  error_writes :: "Error list"

subsection \<open>Collaborators\<close>

text \<open>
  Modelled from the spec: \<^verbatim>\<open>update_brake_current\<close>, \<^verbatim>\<open>gate_driver_.set_enabled\<close>,
  \<^verbatim>\<open>gate_driver_.do_checks\<close> and \<^verbatim>\<open>axis_->controller_.reset\<close> are defined outside
  \<^verbatim>\<open>motor.cpp\<close>.  The spec has them as external collaborators (the brake-resistor
  consumer that is notified of the bus current, the gate driver, the reset hook of
  the axis controller).  The model records that the call is made and leaves the
  fields of the motor as they are.
\<close>

definition called :: "call \<Rightarrow> Motor \<Rightarrow> Motor" where
  "called c m = m\<lparr>calls := calls m @ [c]\<rparr>"

definition update_brake_current :: "Motor \<Rightarrow> Motor" where
  "update_brake_current m = called UPDATE_BRAKE_CURRENT m"

text \<open>
  Modelled from the spec: the virtual functions of \<^verbatim>\<open>PhaseControlLaw<3>\<close>.  For the
  two laws of this file they are inherited from \<^verbatim>\<open>AlphaBetaFrameController\<close>, which is
  not in \<^verbatim>\<open>motor.cpp\<close>: per the spec, \<^verbatim>\<open>on_measurement\<close> is delivered the two-phase
  transform of the three phase currents, and \<^verbatim>\<open>get_output\<close> returns the timings for
  the alpha/beta output of the law, or an error kind.
\<close>

definition law_reset :: "board \<Rightarrow> law_ptr \<Rightarrow> Motor \<Rightarrow> Motor" where
  "law_reset B p m =
     (case p of
        ResistanceLaw a \<Rightarrow> m\<lparr>R_laws := (R_laws m)(a := R_reset (R_laws m a))\<rparr>
      | InductanceLaw a \<Rightarrow> m\<lparr>L_laws := (L_laws m)(a := L_reset (L_laws m a))\<rparr>
      | ExternalLaw a \<Rightarrow> m\<lparr>X_laws := (X_laws m)(a := ext_reset B (X_laws m a))\<rparr>)"

definition law_on_measurement ::
  "board \<Rightarrow> law_ptr \<Rightarrow> float \<Rightarrow> float \<times> float \<times> float \<Rightarrow> 32 word \<Rightarrow> Motor \<Rightarrow> Error \<times> Motor" where
  "law_on_measurement B p vbus currents input_timestamp m =
     (case p of
        ResistanceLaw a \<Rightarrow>
          (let (e, r) = R_on_measurement B (R_laws m a) vbus
                          (fst (clarke B currents)) (snd (clarke B currents)) input_timestamp
           in (e, m\<lparr>R_laws := (R_laws m)(a := r)\<rparr>))
      | InductanceLaw a \<Rightarrow>
          (let (e, l) = L_on_measurement (L_laws m a) vbus
                          (fst (clarke B currents)) (snd (clarke B currents)) input_timestamp
           in (e, m\<lparr>L_laws := (L_laws m)(a := l)\<rparr>))
      | ExternalLaw a \<Rightarrow>
          (let (e, x) = ext_on_measurement B (X_laws m a) vbus currents input_timestamp
           in (e, m\<lparr>X_laws := (X_laws m)(a := x)\<rparr>)))"

definition law_get_output ::
  "board \<Rightarrow> law_ptr \<Rightarrow> 32 word \<Rightarrow> Motor \<Rightarrow> (float \<times> float \<times> float) variant \<times> Motor" where
  "law_get_output B p output_timestamp m =
     (case p of
        ResistanceLaw a \<Rightarrow>
          ((case R_get_alpha_beta_output (R_laws m a) output_timestamp of
              Output ab \<Rightarrow> svm B ab
            | Failure e \<Rightarrow> Failure e), m)
      | InductanceLaw a \<Rightarrow>
          (let (res, l) = L_get_alpha_beta_output (L_laws m a) (vbus_voltage m) output_timestamp
           in ((case res of Output ab \<Rightarrow> svm B ab | Failure e \<Rightarrow> Failure e),
               m\<lparr>L_laws := (L_laws m)(a := l)\<rparr>))
      | ExternalLaw a \<Rightarrow>
          (let (res, x) = ext_get_output B (X_laws m a) output_timestamp
           in (res, m\<lparr>X_laws := (X_laws m)(a := x)\<rparr>)))"

subsection \<open>Arming, disarming and the PWM commit\<close>

text \<open>
  The argument \<^verbatim>\<open>bool* was_armed\<close> of \<^verbatim>\<open>disarm\<close>: null, a location of the caller, or
  the local \<^verbatim>\<open>dummy\<close> that the function substitutes for null.
\<close>

datatype bool_ptr = nullptr | caller_ptr | dummy_ptr

text \<open>
  \<^verbatim>\<open>disarm\<close> returns its result, the value stored through the caller's pointer (if
  the caller gave one) and the new state.  The test after the critical section is on
  the pointer \<^verbatim>\<open>was_armed\<close>, as the source has it.
\<close>

definition disarm :: "board \<Rightarrow> bool_ptr \<Rightarrow> Motor \<Rightarrow> bool \<times> bool option \<times> Motor" where
  "disarm B was_armed_arg m =
     (let was_armed = (if was_armed_arg \<noteq> nullptr then was_armed_arg else dummy_ptr);
          stored = is_armed m;
          m1 = (if is_armed m then called (GATE_DRIVER_SET_ENABLED False) m else m);
          m2 = m1\<lparr>is_armed := False\<rparr>;
          m3 = m2\<lparr>timer := (timer m2)\<lparr>BDTR := BDTR (timer m2) AND NOT (TIM_BDTR_AOE B)\<rparr>\<rparr>;
          m4 = m3\<lparr>timer := (timer m3)\<lparr>BDTR := BDTR (timer m3) AND NOT (TIM_BDTR_MOE B)\<rparr>\<rparr>;
          m5 = m4\<lparr>control_law := None\<rparr>;
          m6 = (if was_armed \<noteq> nullptr then update_brake_current m5 else m5)
      in (True, (if was_armed = caller_ptr then Some stored else None), m6))"

definition disarm_with_error :: "board \<Rightarrow> Error \<Rightarrow> Motor \<Rightarrow> Motor" where
  "disarm_with_error B e m =
     (let m1 = m\<lparr>error := error m \<union> e, error_writes := error_writes m @ [e]\<rparr>;
          m2 = snd (snd (disarm B nullptr m1))
      in update_brake_current m2)"

text \<open>
  Modelled from the spec: \<^verbatim>\<open>odrv.do_fast_checks\<close> is defined outside \<^verbatim>\<open>motor.cpp\<close>.
  The spec has it as a hook without arguments that may itself request a disarm as a
  side effect, and the source says that the motor might be disarmed in it.  What it
  requests is the field \<open>fast_checks\<close> of the state, so every statement about a state
  covers the three outcomes.
\<close>

definition do_fast_checks :: "board \<Rightarrow> Motor \<Rightarrow> Motor" where
  "do_fast_checks B m =
     (let m1 = called DO_FAST_CHECKS m
      in case fast_checks m1 of
           NO_REQUEST \<Rightarrow> m1
         | REQUEST_DISARM \<Rightarrow> snd (snd (disarm B nullptr m1))
         | REQUEST_DISARM_WITH_ERROR e \<Rightarrow> disarm_with_error B e m1)"

text \<open>
  \<^verbatim>\<open>do_checks\<close>: the answer of \<^verbatim>\<open>gate_driver_.is_ready()\<close> is the field
  \<open>gate_driver_ready\<close> of the state.
\<close>

definition do_checks :: "board \<Rightarrow> 32 word \<Rightarrow> Motor \<Rightarrow> bool \<times> Motor" where
  "do_checks B timestamp m =
     (let m1 = called GATE_DRIVER_DO_CHECKS m
      in if \<not> gate_driver_ready m1 then (False, disarm_with_error B ERROR_DRV_FAULT m1)
         else (True, m1))"

definition arm :: "board \<Rightarrow> law_ptr option \<Rightarrow> Motor \<Rightarrow> bool \<times> Motor" where
  "arm B law m =
     (let m1 = m\<lparr>control_law := law\<rparr>;
          m2 = called AXIS_CONTROLLER_RESET m1;
          m3 = m2\<lparr>rotor_flux := Fin 0\<rparr>;
          m4 = (case control_law m3 of None \<Rightarrow> m3 | Some p \<Rightarrow> law_reset B p m3);
          m5 = (if brake_resistor_armed m4 then m4\<lparr>is_armed := True\<rparr> else m4)
      in (True, m5))"

text \<open>\<^verbatim>\<open>__HAL_TIM_GET_FLAG(htim, flag)\<close> is \<^verbatim>\<open>((SR & flag) == flag)\<close>.\<close>

definition HAL_TIM_GET_FLAG :: "Motor \<Rightarrow> 32 word \<Rightarrow> bool" where
  "HAL_TIM_GET_FLAG m flag = (SR (timer m) AND flag = flag)"

definition apply_pwm_timings ::
  "board \<Rightarrow> 16 word \<times> 16 word \<times> 16 word \<Rightarrow> bool \<Rightarrow> Motor \<Rightarrow> Motor" where
  "apply_pwm_timings B timings tentative m =
     (let m1 = (if \<not> brake_resistor_armed m
                then disarm_with_error B ERROR_BRAKE_RESISTOR_DISARMED m else m);
          m2 = m1\<lparr>timer := (timer m1)\<lparr>CCR1 := ucast (fst timings),
                                        CCR2 := ucast (fst (snd timings)),
                                        CCR3 := ucast (snd (snd timings))\<rparr>\<rparr>;
          m3 = (if \<not> tentative then
                  (if is_armed m2 then
                     m2\<lparr>timer := (timer m2)\<lparr>BDTR := BDTR (timer m2) OR TIM_BDTR_AOE B\<rparr>\<rparr>
                   else m2)
                else m2)
      in if HAL_TIM_GET_FLAG m3 (TIM_FLAG_UPDATE B)
         then disarm_with_error B ERROR_CONTROL_DEADLINE_MISSED m3 else m3)"

definition log_timing :: "board \<Rightarrow> TimingLog_t \<Rightarrow> Motor \<Rightarrow> Motor" where
  "log_timing B log_idx m =
     (let timing = (ucast (ucast (clocks_per_cnt B) * htim13_CNT m) :: 16 word)
      in if timing_log_slot B log_idx < TIMING_LOG_NUM_SLOTS B
         then m\<lparr>timing_log := (timing_log m)(timing_log_slot B log_idx := timing)\<rparr>
         else m)"

text \<open>
  \<^verbatim>\<open>(int)ADCValue - (1 << 11)\<close> is a subtraction of 32-bit signed integers; it is
  taken to wrap around, as it does on the target.
\<close>

definition phase_current_from_adcval :: "Motor \<Rightarrow> 32 word \<Rightarrow> float" where
  "phase_current_from_adcval m ADCValue =
     (let adcval_bal = sint (ADCValue - 2 ^ 11);
          amp_out_volt = (Fin (13841203 / 4194304) / Fin (2 ^ 12)) * Fin (of_int adcval_bal);
          shunt_volt = amp_out_volt * phase_current_rev_gain m;
          current = shunt_volt * shunt_conductance m
      in current)"

subsection \<open>Measurement of phase resistance and inductance\<close>

text \<open>
  The polling loop \<^verbatim>\<open>for (i = 0; i < n; ++i) { if (!(...)) break; osDelay(1); }\<close>.
  \<^verbatim>\<open>osDelay(1)\<close> suspends the calling thread while the timer interrupt and the other
  threads run; what they do to the state during delay number \<open>i\<close> is the argument
  \<open>osDelay i\<close>.  The test reads \<^verbatim>\<open>axis_->motor_.is_armed_\<close>, the armed flag of this
  motor.
\<close>

fun poll :: "nat \<Rightarrow> nat \<Rightarrow> (nat \<Rightarrow> Motor \<Rightarrow> Motor) \<Rightarrow> Motor \<Rightarrow> Motor" where
  "poll 0 i osDelay m = m"
| "poll (Suc k) i osDelay m =
     (if \<not> (requested_state m = AXIS_STATE_UNDEFINED \<and> is_armed m) then m
      else poll k (Suc i) osDelay (osDelay i m))"

text \<open>
  The local \<^verbatim>\<open>control_law\<close> of the two routines is the object at address \<open>a\<close> of
  its store.
\<close>

definition measure_phase_resistance ::
  "board \<Rightarrow> (nat \<Rightarrow> Motor \<Rightarrow> Motor) \<Rightarrow> nat \<Rightarrow> float \<Rightarrow> float \<Rightarrow> Motor \<Rightarrow> bool \<times> Motor" where
  "measure_phase_resistance B osDelay a test_current_arg max_voltage_arg m =
     (let law = ResistanceMeasurementCotnrolLaw_init
                  \<lparr>test_current := test_current_arg, max_voltage := max_voltage_arg\<rparr>;
          m1 = m\<lparr>R_laws := (R_laws m)(a := law)\<rparr>;
          m2 = snd (arm B (Some (ResistanceLaw a)) m1);
          m3 = poll 3000 0 osDelay m2;
          success = is_armed m3;
          m4 = snd (snd (disarm B nullptr m3));
          m5 = m4\<lparr>config := (config m4)\<lparr>phase_resistance := get_resistance (R_laws m4 a)\<rparr>\<rparr>
      in if isnan (phase_resistance (config m5))
         then (False, disarm_with_error B ERROR_PHASE_RESISTANCE_OUT_OF_RANGE m5)
         else (success, m5))"

definition measure_phase_inductance ::
  "board \<Rightarrow> (nat \<Rightarrow> Motor \<Rightarrow> Motor) \<Rightarrow> nat \<Rightarrow> float \<Rightarrow> Motor \<Rightarrow> bool \<times> Motor" where
  "measure_phase_inductance B osDelay a test_voltage_arg m =
     (let law = InductanceMeasurementCotnrolLaw_init\<lparr>L_test_voltage := test_voltage_arg\<rparr>;
          m1 = m\<lparr>L_laws := (L_laws m)(a := law)\<rparr>;
          m2 = snd (arm B (Some (InductanceLaw a)) m1);
          m3 = poll 1250 0 osDelay m2;
          success = is_armed m3;
          m4 = snd (snd (disarm B nullptr m3));
          m5 = m4\<lparr>config := (config m4)\<lparr>phase_inductance := get_inductance B (L_laws m4 a)\<rparr>\<rparr>
      in if \<not> (Fin (8796093 / 4398046511104) \<le> phase_inductance (config m5)
                \<and> phase_inductance (config m5) \<le> Fin (8589935 / 2147483648))
         then (False, m5\<lparr>error := error m5 \<union> ERROR_PHASE_INDUCTANCE_OUT_OF_RANGE,
                         error_writes := error_writes m5 @ [ERROR_PHASE_INDUCTANCE_OUT_OF_RANGE]\<rparr>)
         else (success, m5))"

definition update_current_controller_gains :: "Motor \<Rightarrow> Motor" where
  "update_current_controller_gains m =
     (let m1 = m\<lparr>current_control := (current_control m)
                   \<lparr>p_gain := current_control_bandwidth (config m) * phase_inductance (config m)\<rparr>\<rparr>;
          plant_pole = phase_resistance (config m1) / phase_inductance (config m1)
      in m1\<lparr>current_control := (current_control m1)
               \<lparr>i_gain := plant_pole * p_gain (current_control m1)\<rparr>\<rparr>)"

text \<open>
  \<^verbatim>\<open>run_calibration\<close>: the two measurements have their own delays and their own
  control-law objects (at the addresses \<open>a\<close> and \<open>b\<close>).
\<close>

definition run_calibration ::
  "board \<Rightarrow> (nat \<Rightarrow> Motor \<Rightarrow> Motor) \<Rightarrow> (nat \<Rightarrow> Motor \<Rightarrow> Motor) \<Rightarrow> nat \<Rightarrow> nat \<Rightarrow> Motor
   \<Rightarrow> bool \<times> Motor" where
  "run_calibration B osDelay_R osDelay_L a b m =
     (let R_calib_max_voltage = resistance_calib_max_voltage (config m)
      in if motor_type (config m) = MOTOR_TYPE_HIGH_CURRENT
            \<or> motor_type (config m) = MOTOR_TYPE_ACIM then
           (let r1 = measure_phase_resistance B osDelay_R a (calibration_current (config m))
                       R_calib_max_voltage m
            in if \<not> fst r1 then (False, snd r1)
               else
                 (let r2 = measure_phase_inductance B osDelay_L b R_calib_max_voltage (snd r1)
                  in if \<not> fst r2 then (False, snd r2)
                     else (True, (update_current_controller_gains (snd r2))\<lparr>is_calibrated := True\<rparr>)))
         else if motor_type (config m) = MOTOR_TYPE_GIMBAL then
           (True, (update_current_controller_gains m)\<lparr>is_calibrated := True\<rparr>)
         else (False, m))"

subsection \<open>The timer update callback\<close>

text \<open>
  The saturation test of one raw sample: outside the window the motor is disarmed
  and the sample replaced by the sentinel \<^verbatim>\<open>0xffffffff\<close>.
\<close>

definition check_adc :: "board \<Rightarrow> 32 word \<Rightarrow> Motor \<Rightarrow> 32 word \<times> Motor" where
  "check_adc B adc m =
     (if adc \<noteq> 0xffffffff \<and> (adc < CURRENT_ADC_LOWER_BOUND B \<or> CURRENT_ADC_UPPER_BOUND B < adc)
      then (0xffffffff, disarm_with_error B ERROR_CURRENT_SENSE_SATURATION m)
      else (adc, m))"

definition adc_to_current :: "Motor \<Rightarrow> 32 word \<Rightarrow> float" where
  "adc_to_current m adc = (if adc \<noteq> 0xffffffff then phase_current_from_adcval m adc else NaN)"

text \<open>The \<^verbatim>\<open>switch\<close> on the sensor mask: cases \<^verbatim>\<open>0b110\<close>, \<^verbatim>\<open>0b101\<close>, \<^verbatim>\<open>0b011\<close>, \<^verbatim>\<open>0b111\<close>.\<close>

definition infer_missing :: "8 word \<Rightarrow> Iph_ABC_t \<Rightarrow> Iph_ABC_t" where
  "infer_missing sensor_mask current =
     (if sensor_mask = 6 then current\<lparr>phA := - (phB current + phC current)\<rparr>
      else if sensor_mask = 5 then current\<lparr>phB := - (phC current + phA current)\<rparr>
      else if sensor_mask = 3 then current\<lparr>phC := - (phA current + phB current)\<rparr>
      else current)"

definition current_valid :: "Iph_ABC_t \<Rightarrow> bool" where
  "current_valid current =
     (\<not> isnan (phA current) \<and> \<not> isnan (phB current) \<and> \<not> isnan (phC current))"

text \<open>Lines 491 to 518: saturation tests, conversion, inference of the missing phase.\<close>

definition read_currents ::
  "board \<Rightarrow> 32 word \<Rightarrow> 32 word \<Rightarrow> 32 word \<Rightarrow> Motor \<Rightarrow> Iph_ABC_t \<times> Motor" where
  "read_currents B adc_a adc_b adc_c m =
     (let (adc_a1, m1) = check_adc B adc_a m;
          (adc_b1, m2) = check_adc B adc_b m1;
          (adc_c1, m3) = check_adc B adc_c m2;
          current = \<lparr>phA = adc_to_current m3 adc_a1,
                     phB = adc_to_current m3 adc_b1,
                     phC = adc_to_current m3 adc_c1\<rparr>
      in (infer_missing (current_sensor_mask m3) current, m3))"

definition interrupt_period :: "board \<Rightarrow> float" where
  "interrupt_period B =
     Fin (of_nat (TIM_1_8_PERIOD_CLOCKS B * (TIM_1_8_RCR B + 1))) / Fin (of_nat (TIM_1_8_CLOCK_HZ B))"

text \<open>Lines 528 to 544: the update of the DC calibration.\<close>

definition dc_calib_update :: "board \<Rightarrow> Iph_ABC_t \<Rightarrow> Motor \<Rightarrow> Motor" where
  "dc_calib_update B current m =
     (let m1 =
        (if current_valid current then
           (let dc_calib_period = Fin 2 * interrupt_period B;
                calib_filter_k = std_min (dc_calib_period / dc_calib_tau (config m)) (Fin 1)
            in m\<lparr>DC_calib :=
                   \<lparr>phA = phA (DC_calib m) + (phA current - phA (DC_calib m)) * calib_filter_k,
                    phB = phB (DC_calib m) + (phB current - phB (DC_calib m)) * calib_filter_k,
                    phC = phC (DC_calib m) + (phC current - phC (DC_calib m)) * calib_filter_k\<rparr>,
                 dc_calib_running_since := dc_calib_running_since m + dc_calib_period\<rparr>)
         else
           m\<lparr>DC_calib := \<lparr>phA = Fin 0, phB = Fin 0, phC = Fin 0\<rparr>,
             dc_calib_running_since := Fin 0\<rparr>)
      in log_timing B TIMING_LOG_DC_CAL m1)"

text \<open>Lines 546 to 593: the current-sense half of the period.\<close>

definition current_sense :: "board \<Rightarrow> Iph_ABC_t \<Rightarrow> Motor \<Rightarrow> Motor" where
  "current_sense B current m =
     (let dc_calib_valid =
            (dc_calib_tau (config m) * Fin (75 / 10) \<le> dc_calib_running_since m
             \<and> \<bar>phA (DC_calib m)\<bar> < max_dc_calib m
             \<and> \<bar>phB (DC_calib m)\<bar> < max_dc_calib m
             \<and> \<bar>phC (DC_calib m)\<bar> < max_dc_calib m);
          m1 = (if current_valid current \<and> dc_calib_valid then
                  (let cA = phA current - phA (DC_calib m);
                       cB = phB current - phB (DC_calib m);
                       cC = phC current - phC (DC_calib m);
                       leak = cA + cB + cC
                   in m\<lparr>I_leak := leak,
                        current_meas := \<lparr>phA = cA - leak / Fin 3,
                                         phB = cB - leak / Fin 3,
                                         phC = cC - leak / Fin 3\<rparr>\<rparr>)
                else m\<lparr>I_leak := NaN, current_meas := \<lparr>phA = NaN, phB = NaN, phC = NaN\<rparr>\<rparr>);
          m2 = (if I_leak_max (config m1) < \<bar>I_leak m1\<bar>
                then disarm_with_error B ERROR_I_LEAK_OUT_OF_RANGE m1 else m1);
          m3 = do_fast_checks B m2;
          Itrip = effective_current_lim m3 + current_lim_margin (config m3);
          m4 = (if SQ Itrip < Fin 2 / Fin 3 * (SQ (phA (current_meas m3)) + SQ (phB (current_meas m3))
                                                + SQ (phC (current_meas m3)))
                then disarm_with_error B ERROR_CURRENT_LIMIT_VIOLATION m3 else m3)
      in case control_law m4 of
           None \<Rightarrow> m4
         | Some p \<Rightarrow>
             (let (err, m5) = law_on_measurement B p (vbus_voltage m4)
                                (phA (current_meas m4), phB (current_meas m4), phC (current_meas m4))
                                (last_update_timestamp m4) m4
              in if err \<noteq> ERROR_NONE then disarm_with_error B err m5 else m5))"

text \<open>
  \<^verbatim>\<open>(uint16_t)x\<close> drops the fraction.  C++ leaves the conversion undefined when the
  result does not fit or \<^verbatim>\<open>x\<close> is not finite; the model wraps modulo \<open>2 ^ 16\<close> and gives 0.
\<close>

definition float_to_uint16 :: "float \<Rightarrow> 16 word" where
  "float_to_uint16 x =
     (case x of Fin q \<Rightarrow> word_of_int (if 0 \<le> q then \<lfloor>q\<rfloor> else \<lceil>q\<rceil>) | _ \<Rightarrow> 0)"

text \<open>
  Lines 595 to 640: the PWM-update half of the period, in three parts.  First the
  request to the control law (lines 598 to 601).
\<close>

definition get_control_law_output ::
  "board \<Rightarrow> Motor \<Rightarrow> (float \<times> float \<times> float) variant \<times> Motor" where
  "get_control_law_output B m =
     (case control_law m of
        None \<Rightarrow> (Failure ERROR_CONTROLLER_FAILED, m)
      | Some p \<Rightarrow>
          law_get_output B p
            (last_update_timestamp m
             + of_nat (2 * TIM_1_8_PERIOD_CLOCKS B * (TIM_1_8_RCR B + 1))) m)"

text \<open>
  Then the \<^verbatim>\<open>if\<close> / \<^verbatim>\<open>else if\<close> of lines 603 to 625, which gives the local \<^verbatim>\<open>i_bus\<close>
  (0 at line 596) and the new state.  \<^verbatim>\<open>std::get<0>\<close> and \<^verbatim>\<open>std::get<1>\<close> are the two
  \<open>case\<close> expressions; the branch \<open>Failure\<close> of the first is not reached, since the
  index is 0 there.
\<close>

definition apply_control_law_output ::
  "board \<Rightarrow> (float \<times> float \<times> float) variant \<Rightarrow> Motor \<Rightarrow> float \<times> Motor" where
  "apply_control_law_output B control_law_result m =
     (if is_armed m \<and> index control_law_result = 0 then
        (case control_law_result of
           Output pwm_timings \<Rightarrow>
             (let (t0, t1, t2) = pwm_timings;
                  i_bus = (Fin (1 / 2) - t0) * phA (current_meas m)
                          + (Fin (1 / 2) - t1) * phB (current_meas m)
                          + (Fin (1 / 2) - t2) * phC (current_meas m);
                  next_timings =
                    (float_to_uint16 (t0 * Fin (of_nat (TIM_1_8_PERIOD_CLOCKS B))),
                     float_to_uint16 (t1 * Fin (of_nat (TIM_1_8_PERIOD_CLOCKS B))),
                     float_to_uint16 (t2 * Fin (of_nat (TIM_1_8_PERIOD_CLOCKS B))))
              in (i_bus, apply_pwm_timings B next_timings False m))
         | Failure e \<Rightarrow> (Fin 0, m))
      else if is_armed m then
        (if BDTR (timer m) AND TIM_BDTR_MOE B = 0
            \<and> control_law_result = Failure ERROR_CONTROLLER_INITIALIZING
         then (Fin 0, m)
         else (Fin 0,
               disarm_with_error B
                 (case control_law_result of
                    Failure e \<Rightarrow> e
                  | Output pwm_timings \<Rightarrow> ERROR_CONTROLLER_FAILED) m))
      else (Fin 0, m))"

text \<open>Last the bus current and its limits (lines 627 to 639).\<close>

definition pwm_update :: "board \<Rightarrow> Motor \<Rightarrow> Motor" where
  "pwm_update B m =
     (let (control_law_result, m1) = get_control_law_output B m;
          (i_bus, m2) = apply_control_law_output B control_law_result m1;
          i_bus1 = (if \<not> is_armed m2 then Fin 0 else i_bus);
          m3 = m2\<lparr>I_bus := i_bus1\<rparr>;
          m4 = (if i_bus1 < I_bus_hard_min (config m3) \<or> I_bus_hard_max (config m3) < i_bus1
                then disarm_with_error B ERROR_I_BUS_OUT_OF_RANGE m3 else m3);
          m5 = update_brake_current m4
      in log_timing B TIMING_LOG_CTRL_DONE m5)"

definition tim_update_cb :: "board \<Rightarrow> 32 word \<Rightarrow> 32 word \<Rightarrow> 32 word \<Rightarrow> Motor \<Rightarrow> Motor" where
  "tim_update_cb B adc_a adc_b adc_c m =
     (let m0 = m\<lparr>last_update_timestamp :=
                  last_update_timestamp m
                  + of_nat (TIM_1_8_PERIOD_CLOCKS B * (TIM_1_8_RCR B + 1))\<rparr>;
          counting_down_now = (CR1 (timer m0) AND TIM_CR1_DIR B \<noteq> 0);
          timer_update_missed = (counting_down m0 = counting_down_now)
      in if timer_update_missed then disarm_with_error B ERROR_TIMER_UPDATE_MISSED m0
         else
           (let m1 = m0\<lparr>counting_down := counting_down_now\<rparr>;
                m2 = log_timing B TIMING_LOG_UPDATE_START m1;
                should_update_pwm = counting_down m2;
                was_current_dc_calib = counting_down m2;
                was_current_sense = (\<not> counting_down m2);
                half = (word_of_nat (TIM_1_8_PERIOD_CLOCKS B div 2) :: 16 word);
                m3 = (if should_update_pwm
                      then apply_pwm_timings B (half, half, half) True m2 else m2);
                (current, m4) = read_currents B adc_a adc_b adc_c m3;
                m5 = log_timing B TIMING_LOG_CURRENT_MEAS m4;
                m6 = (if was_current_dc_calib then dc_calib_update B current m5 else m5);
                m7 = (if was_current_sense then current_sense B current m6 else m6)
            in if should_update_pwm then pwm_update B m7 else m7))"

section \<open>Relations between states used in the statements\<close>

text \<open>
  \<open>same_sensing m m'\<close>: the step from \<open>m\<close> to \<open>m'\<close> has left the calibration of the
  current sensors, the configuration and the direction flag as they were.
\<close>

definition same_sensing :: "Motor \<Rightarrow> Motor \<Rightarrow> bool" where
  "same_sensing m m' =
     (DC_calib m' = DC_calib m \<and> dc_calib_running_since m' = dc_calib_running_since m
      \<and> config m' = config m \<and> phase_current_rev_gain m' = phase_current_rev_gain m
      \<and> shunt_conductance m' = shunt_conductance m
      \<and> current_sensor_mask m' = current_sensor_mask m
      \<and> counting_down m' = counting_down m)"

text \<open>
  \<open>stays_safe m m'\<close>: the step from \<open>m\<close> to \<open>m'\<close> has changed the error mask only
  by the writes \<open>ws\<close> it has made; if it has made a write the motor is disarmed
  afterwards, whether or not the write has changed the mask; and it has not armed the
  motor.
\<close>

definition stays_safe :: "Motor \<Rightarrow> Motor \<Rightarrow> bool" where
  "stays_safe m m' =
     (\<exists>ws. error_writes m' = error_writes m @ ws
         \<and> error m' = error m \<union> \<Union> (set ws)
         \<and> (ws \<noteq> [] \<longrightarrow> \<not> is_armed m')
         \<and> (is_armed m' \<longrightarrow> is_armed m))"

section \<open>An example board and example states\<close>

text \<open>
  The register bits are those of the STM32F4 advanced timers, the constants those of
  a 24 V board with an 8 kHz current loop.  The functions of the external controller
  are stand-ins: no example below installs an external law or reaches \<open>svm\<close>.
\<close>

definition B0 :: board where
  "B0 = \<lparr>TIM_CR1_DIR = 0x10, TIM_BDTR_AOE = 0x4000, TIM_BDTR_MOE = 0x8000,
          TIM_FLAG_UPDATE = 0x1,
          CURRENT_ADC_LOWER_BOUND = 372, CURRENT_ADC_UPPER_BOUND = 3723,
          TIM_1_8_PERIOD_CLOCKS = 3500, TIM_1_8_RCR = 2, TIM_1_8_CLOCK_HZ = 168000000,
          current_meas_period = Fin (1 / 8000),
          clocks_per_cnt = 2,
          timing_log_slot = (\<lambda>i. case i of TIMING_LOG_UPDATE_START \<Rightarrow> 0
                                 | TIMING_LOG_CURRENT_MEAS \<Rightarrow> 1
                                 | TIMING_LOG_DC_CAL \<Rightarrow> 2
                                 | TIMING_LOG_CTRL_DONE \<Rightarrow> 3),
          TIMING_LOG_NUM_SLOTS = 4,
          clarke = (\<lambda>(a, b, c). (a, Fin (577 / 1000) * (b - c))),
          svm = (\<lambda>ab. Failure ERROR_CONTROLLER_FAILED),
          ext_reset = (\<lambda>x. x),
          ext_on_measurement = (\<lambda>x vbus currents t. (ERROR_NONE, x)),
          ext_get_output = (\<lambda>x t. (Failure ERROR_CONTROLLER_FAILED, x))\<rparr>"

text \<open>
  A disarmed motor without errors, three current sensors, the timer counting up
  after a counting-down half, the brake resistor armed, the DC calibration a quarter
  of a second old.
\<close>

definition M0 :: Motor where
  "M0 = \<lparr>timer = \<lparr>CR1 = 0, SR = 0, BDTR = 0, CCR1 = 0, CCR2 = 0, CCR3 = 0\<rparr>,
          current_sensor_mask = 7,
          shunt_conductance = Fin 2048,
          phase_current_rev_gain = Fin (1 / 32),
          max_dc_calib = Fin 6,
          effective_current_lim = Fin 10,
          config = \<lparr>phase_resistance = Fin (1 / 8), phase_inductance = Fin (1 / 8192),
                    dc_calib_tau = Fin (1 / 4), I_leak_max = Fin (1 / 8),
                    current_lim_margin = Fin 8,
                    I_bus_hard_min = NInf, I_bus_hard_max = PInf,
                    motor_type = MOTOR_TYPE_HIGH_CURRENT, calibration_current = Fin 0,
                    resistance_calib_max_voltage = Fin 2,
                    current_control_bandwidth = Fin 1000\<rparr>,
          is_armed = False,
          control_law = None,
          error = ERROR_NONE,
          counting_down = True,
          last_update_timestamp = 0,
          DC_calib = \<lparr>phA = Fin (1 / 128), phB = Fin (1 / 64), phC = Fin (- (1 / 128))\<rparr>,
          dc_calib_running_since = Fin (1 / 4),
          current_meas = \<lparr>phA = Fin 0, phB = Fin 0, phC = Fin 0\<rparr>,
          I_leak = Fin 0,
          I_bus = Fin 0,
          timing_log = (\<lambda>i. 0),
          is_calibrated = False,
          current_control = \<lparr>p_gain = Fin 0, i_gain = Fin 0\<rparr>,
          brake_resistor_armed = True,
          vbus_voltage = Fin 24,
          htim13_CNT = 0,
          requested_state = AXIS_STATE_UNDEFINED,
          rotor_flux = Fin 0,
          R_laws = (\<lambda>a. ResistanceMeasurementCotnrolLaw_init),
          L_laws = (\<lambda>a. InductanceMeasurementCotnrolLaw_init),
          X_laws = (\<lambda>a. 0),
          gate_driver_ready = True,
          fast_checks = NO_REQUEST,
          calls = [],
          error_writes = []\<rparr>"

text \<open>The same motor, armed, when the update flag of the timer is set.\<close>

definition M_latched :: Motor where
  "M_latched = M0\<lparr>is_armed := True, timer := (timer M0)\<lparr>SR := 1\<rparr>\<rparr>"

text \<open>The same motor with a gate-driver fault pending.\<close>

definition M_fault :: Motor where
  "M_fault = M0\<lparr>error := ERROR_DRV_FAULT\<rparr>"

text \<open>The same motor, armed, after the brake resistor has been disarmed.\<close>

definition M_brake_off :: Motor where
  "M_brake_off = M0\<lparr>is_armed := True, brake_resistor_armed := False\<rparr>"

text \<open>The same motor at the start of a counting-down half: the direction bit is set.\<close>

definition M_down :: Motor where
  "M_down = M0\<lparr>counting_down := False, timer := (timer M0)\<lparr>CR1 := 0x10\<rparr>\<rparr>"

text \<open>The same motor, armed.\<close>

definition M_armed :: Motor where
  "M_armed = M0\<lparr>is_armed := True\<rparr>"

text \<open>The same motor when the direction bit is what it was at the previous call.\<close>

definition M_missed :: Motor where
  "M_missed = M0\<lparr>timer := (timer M0)\<lparr>CR1 := 0x10\<rparr>\<rparr>"

text \<open>
  The motor at the start of a counting-down half when the reverse gain of the current
  sense amplifier is infinite.
\<close>

definition M_inf_gain :: Motor where
  "M_inf_gain = M_down\<lparr>phase_current_rev_gain := PInf\<rparr>"

text \<open>
  What happens during a delay of the resistance measurement when the interrupt has
  driven the test voltage of the law at address 0 to 1 V.
\<close>

definition driven_to_1V :: "nat \<Rightarrow> Motor \<Rightarrow> Motor" where
  "driven_to_1V i m = m\<lparr>R_laws := (R_laws m)(0 := (R_laws m 0)\<lparr>test_voltage := Fin 1\<rparr>)\<rparr>"

text \<open>A delay during which nothing touches the state.\<close>

definition idle :: "nat \<Rightarrow> Motor \<Rightarrow> Motor" where
  "idle i m = m"

text \<open>
  An armed motor whose update flag is set at a commit of PWM timings while the
  deadline-missed flag is already in the error mask.
\<close>

definition M_pending :: Motor where
  "M_pending = M_latched\<lparr>error := ERROR_CONTROL_DEADLINE_MISSED\<rparr>"

text \<open>A gimbal motor.\<close>

definition M_gimbal :: Motor where
  "M_gimbal = M0\<lparr>config := (config M0)\<lparr>motor_type := MOTOR_TYPE_GIMBAL\<rparr>\<rparr>"

text \<open>
  A thread that runs during a delay of a measurement routine and requests another axis
  state, which ends the polling loop: state 1 if it found the motor armed with a
  nonzero error mask, state 0 otherwise.
\<close>

definition watcher :: "nat \<Rightarrow> Motor \<Rightarrow> Motor" where
  "watcher i m =
     m\<lparr>requested_state :=
         (if is_armed m \<and> error m \<noteq> ERROR_NONE then AXIS_STATE_OTHER 1 else AXIS_STATE_OTHER 0)\<rparr>"

section \<open>The effect of disarming\<close>

lemma disarm_state:
  "snd (snd (disarm B p m)) =
     m\<lparr>is_armed := False,
       control_law := None,
       timer := (timer m)\<lparr>BDTR := (BDTR (timer m) AND NOT (TIM_BDTR_AOE B)) AND NOT (TIM_BDTR_MOE B)\<rparr>,
       calls := calls m @ (if is_armed m then [GATE_DRIVER_SET_ENABLED False] else [])
                @ [UPDATE_BRAKE_CURRENT]\<rparr>"
  by (cases p) (simp_all add: disarm_def Let_def called_def update_brake_current_def)

lemma disarm_with_error_state:
  "disarm_with_error B e m =
     m\<lparr>is_armed := False,
       control_law := None,
       error := error m \<union> e,
       timer := (timer m)\<lparr>BDTR := (BDTR (timer m) AND NOT (TIM_BDTR_AOE B)) AND NOT (TIM_BDTR_MOE B)\<rparr>,
       calls := calls m @ (if is_armed m then [GATE_DRIVER_SET_ENABLED False] else [])
                @ [UPDATE_BRAKE_CURRENT, UPDATE_BRAKE_CURRENT],
       error_writes := error_writes m @ [e]\<rparr>"
  by (simp add: disarm_with_error_def Let_def disarm_state called_def update_brake_current_def)

section \<open>Steps that leave the sensing state alone\<close>

lemma same_sensing_refl: "same_sensing m m"
  by (simp add: same_sensing_def)

lemma same_sensing_trans: "same_sensing m m1 \<Longrightarrow> same_sensing m1 m2 \<Longrightarrow> same_sensing m m2"
  by (simp add: same_sensing_def)

lemma same_sensing_dwe: "same_sensing m (disarm_with_error B e m)"
  by (simp add: same_sensing_def disarm_with_error_state)

lemma same_sensing_log_timing: "same_sensing m (log_timing B i m)"
  by (simp add: same_sensing_def log_timing_def Let_def)

lemma same_sensing_apply_pwm_timings: "same_sensing m (apply_pwm_timings B t tt m)"
  by (simp add: same_sensing_def apply_pwm_timings_def Let_def disarm_with_error_state)

lemma same_sensing_check_adc: "same_sensing m (snd (check_adc B adc m))"
  by (simp add: same_sensing_def check_adc_def disarm_with_error_state)

lemma same_sensing_read_currents: "same_sensing m (snd (read_currents B a b c m))"
proof -
  have "same_sensing m (snd (check_adc B c (snd (check_adc B b (snd (check_adc B a m))))))"
    by (rule same_sensing_trans [OF same_sensing_trans [OF same_sensing_check_adc same_sensing_check_adc]
          same_sensing_check_adc])
  then show ?thesis
    by (simp add: read_currents_def Let_def split_def)
qed

lemma fst_check_adc:
  "fst (check_adc B adc m) =
     (if adc \<noteq> 0xffffffff \<and> (adc < CURRENT_ADC_LOWER_BOUND B \<or> CURRENT_ADC_UPPER_BOUND B < adc)
      then 0xffffffff else adc)"
  by (simp add: check_adc_def)

lemma adc_to_current_cong:
  "same_sensing m m' \<Longrightarrow> adc_to_current m' adc = adc_to_current m adc"
  by (simp add: adc_to_current_def phase_current_from_adcval_def same_sensing_def)

lemma fst_read_currents:
  "fst (read_currents B a b c m) =
     infer_missing (current_sensor_mask m)
       \<lparr>phA = adc_to_current m (fst (check_adc B a m)),
        phB = adc_to_current m (fst (check_adc B b m)),
        phC = adc_to_current m (fst (check_adc B c m))\<rparr>"
proof -
  let ?m3 = "snd (check_adc B c (snd (check_adc B b (snd (check_adc B a m)))))"
  have s: "same_sensing m ?m3"
    by (rule same_sensing_trans [OF same_sensing_trans [OF same_sensing_check_adc same_sensing_check_adc]
          same_sensing_check_adc])
  have "fst (read_currents B a b c m) =
     infer_missing (current_sensor_mask ?m3)
       \<lparr>phA = adc_to_current ?m3 (fst (check_adc B a m)),
        phB = adc_to_current ?m3 (fst (check_adc B b (snd (check_adc B a m)))),
        phC = adc_to_current ?m3 (fst (check_adc B c (snd (check_adc B b (snd (check_adc B a m))))))\<rparr>"
    by (simp add: read_currents_def Let_def split_def)
  also have "\<dots> = infer_missing (current_sensor_mask m)
       \<lparr>phA = adc_to_current m (fst (check_adc B a m)),
        phB = adc_to_current m (fst (check_adc B b m)),
        phC = adc_to_current m (fst (check_adc B c m))\<rparr>"
    using s by (simp only: adc_to_current_cong [OF s] fst_check_adc) (simp add: same_sensing_def)
  finally show ?thesis .
qed

lemma fst_read_currents_cong:
  assumes "same_sensing m m'"
  shows "fst (read_currents B a b c m') = fst (read_currents B a b c m)"
  using assms by (simp add: fst_read_currents adc_to_current_cong fst_check_adc) (simp add: same_sensing_def)


lemma same_sensing_called: "same_sensing m (called c m)"
  by (simp add: same_sensing_def called_def)

lemma same_sensing_law_on_measurement:
  "same_sensing m (snd (law_on_measurement B p v cs t m))"
  by (simp add: same_sensing_def law_on_measurement_def split_def Let_def split: law_ptr.split)

lemma same_sensing_law_get_output:
  "same_sensing m (snd (law_get_output B p t m))"
  by (simp add: same_sensing_def law_get_output_def split_def Let_def split: law_ptr.split)

lemma same_sensing_disarm: "same_sensing m (snd (snd (disarm B p m)))"
  by (simp add: same_sensing_def disarm_state)

lemma same_sensing_do_fast_checks: "same_sensing m (do_fast_checks B m)"
proof -
  have c: "same_sensing m (called DO_FAST_CHECKS m)"
    by (rule same_sensing_called)
  show ?thesis
    unfolding do_fast_checks_def Let_def
    by (cases "fast_checks (called DO_FAST_CHECKS m)")
       (simp_all add: c same_sensing_trans [OF c same_sensing_disarm]
          same_sensing_trans [OF c same_sensing_dwe])
qed

lemma same_sensing_current_sense: "same_sensing m (current_sense B cur m)"
proof -
  define dcv where "dcv = (dc_calib_tau (config m) * Fin (75 / 10) \<le> dc_calib_running_since m
             \<and> \<bar>phA (DC_calib m)\<bar> < max_dc_calib m
             \<and> \<bar>phB (DC_calib m)\<bar> < max_dc_calib m
             \<and> \<bar>phC (DC_calib m)\<bar> < max_dc_calib m)"
  define m1 where "m1 = (if current_valid cur \<and> dcv then
                  (let cA = phA cur - phA (DC_calib m);
                       cB = phB cur - phB (DC_calib m);
                       cC = phC cur - phC (DC_calib m);
                       leak = cA + cB + cC
                   in m\<lparr>I_leak := leak,
                        current_meas := \<lparr>phA = cA - leak / Fin 3,
                                         phB = cB - leak / Fin 3,
                                         phC = cC - leak / Fin 3\<rparr>\<rparr>)
                else m\<lparr>I_leak := NaN, current_meas := \<lparr>phA = NaN, phB = NaN, phC = NaN\<rparr>\<rparr>)"
  define m2 where "m2 = (if I_leak_max (config m1) < \<bar>I_leak m1\<bar>
                then disarm_with_error B ERROR_I_LEAK_OUT_OF_RANGE m1 else m1)"
  define m3 where "m3 = do_fast_checks B m2"
  define m4 where "m4 = (if SQ (effective_current_lim m3 + current_lim_margin (config m3))
                      < Fin 2 / Fin 3 * (SQ (phA (current_meas m3)) + SQ (phB (current_meas m3))
                                                + SQ (phC (current_meas m3)))
                then disarm_with_error B ERROR_CURRENT_LIMIT_VIOLATION m3 else m3)"
  have r: "current_sense B cur m =
     (case control_law m4 of
           None \<Rightarrow> m4
         | Some p \<Rightarrow>
             (let (err, m5) = law_on_measurement B p (vbus_voltage m4)
                                (phA (current_meas m4), phB (current_meas m4), phC (current_meas m4))
                                (last_update_timestamp m4) m4
              in if err \<noteq> ERROR_NONE then disarm_with_error B err m5 else m5))"
    unfolding current_sense_def m4_def m3_def m2_def m1_def dcv_def Let_def ..
  have 1: "same_sensing m m1" by (simp add: m1_def same_sensing_def Let_def)
  have 2: "same_sensing m1 m2" by (simp add: m2_def same_sensing_dwe same_sensing_refl)
  have 3: "same_sensing m2 m3" by (simp add: m3_def same_sensing_do_fast_checks)
  have 4: "same_sensing m3 m4" by (simp add: m4_def same_sensing_dwe same_sensing_refl)
  have 04: "same_sensing m m4"
    by (rule same_sensing_trans [OF same_sensing_trans [OF same_sensing_trans [OF 1 2] 3] 4])
  have 5: "same_sensing m4 (current_sense B cur m)"
    unfolding r
    by (auto simp add: split_def Let_def same_sensing_refl same_sensing_law_on_measurement
          intro: same_sensing_trans [OF same_sensing_law_on_measurement same_sensing_dwe]
          split: option.split)
  show ?thesis by (rule same_sensing_trans [OF 04 5])
qed

lemma pwm_update_unfold:
  "pwm_update B m =
     log_timing B TIMING_LOG_CTRL_DONE
       (update_brake_current
         (let m1 = snd (get_control_law_output B m);
              r2 = apply_control_law_output B (fst (get_control_law_output B m)) m1;
              i_bus1 = (if \<not> is_armed (snd r2) then Fin 0 else fst r2);
              m3 = (snd r2)\<lparr>I_bus := i_bus1\<rparr>
          in if i_bus1 < I_bus_hard_min (config m3) \<or> I_bus_hard_max (config m3) < i_bus1
             then disarm_with_error B ERROR_I_BUS_OUT_OF_RANGE m3 else m3))"
  unfolding pwm_update_def Let_def split_def ..

lemma same_sensing_get_control_law_output:
  "same_sensing m (snd (get_control_law_output B m))"
  by (cases "control_law m")
     (simp_all add: get_control_law_output_def same_sensing_refl same_sensing_law_get_output)

lemma same_sensing_apply_control_law_output:
  "same_sensing m (snd (apply_control_law_output B r m))"
  by (cases r)
     (simp_all add: apply_control_law_output_def split_def Let_def same_sensing_refl
        same_sensing_apply_pwm_timings same_sensing_dwe)

lemma same_sensing_pwm_update: "same_sensing m (pwm_update B m)"
proof -
  define m1 where "m1 = snd (get_control_law_output B m)"
  define r2 where "r2 = apply_control_law_output B (fst (get_control_law_output B m)) m1"
  define i_bus1 where "i_bus1 = (if \<not> is_armed (snd r2) then Fin 0 else fst r2)"
  define m3 where "m3 = (snd r2)\<lparr>I_bus := i_bus1\<rparr>"
  define m4 where "m4 = (if i_bus1 < I_bus_hard_min (config m3) \<or> I_bus_hard_max (config m3) < i_bus1
                then disarm_with_error B ERROR_I_BUS_OUT_OF_RANGE m3 else m3)"
  have r: "pwm_update B m = log_timing B TIMING_LOG_CTRL_DONE (update_brake_current m4)"
    unfolding pwm_update_unfold m4_def m3_def i_bus1_def r2_def m1_def Let_def ..
  have 1: "same_sensing m m1"
    unfolding m1_def by (rule same_sensing_get_control_law_output)
  have 2: "same_sensing m1 (snd r2)"
    unfolding r2_def by (rule same_sensing_apply_control_law_output)
  have 3: "same_sensing (snd r2) m3" by (simp add: m3_def same_sensing_def)
  have 4: "same_sensing m3 m4" by (simp add: m4_def same_sensing_dwe same_sensing_refl)
  have 5: "same_sensing m4 (pwm_update B m)"
    unfolding r update_brake_current_def
    by (rule same_sensing_trans [OF same_sensing_called same_sensing_log_timing])
  show ?thesis
    by (rule same_sensing_trans [OF same_sensing_trans [OF same_sensing_trans
          [OF same_sensing_trans [OF 1 2] 3] 4] 5])
qed

section \<open>Steps that keep the motor safe\<close>

lemma stays_safe_same:
  assumes "error_writes m' = error_writes m" and "error m' = error m"
    and "is_armed m' \<longrightarrow> is_armed m"
  shows "stays_safe m m'"
  unfolding stays_safe_def by (rule exI [of _ "[]"]) (use assms in simp)

lemma stays_safe_refl: "stays_safe m m"
  by (rule stays_safe_same) simp_all

lemma stays_safe_trans:
  assumes "stays_safe m m1" and "stays_safe m1 m2"
  shows "stays_safe m m2"
proof -
  from assms(1) obtain ws1 where 1: "error_writes m1 = error_writes m @ ws1"
    "error m1 = error m \<union> \<Union> (set ws1)" "ws1 \<noteq> [] \<longrightarrow> \<not> is_armed m1"
    "is_armed m1 \<longrightarrow> is_armed m"
    unfolding stays_safe_def by blast
  from assms(2) obtain ws2 where 2: "error_writes m2 = error_writes m1 @ ws2"
    "error m2 = error m1 \<union> \<Union> (set ws2)" "ws2 \<noteq> [] \<longrightarrow> \<not> is_armed m2"
    "is_armed m2 \<longrightarrow> is_armed m1"
    unfolding stays_safe_def by blast
  show ?thesis
    unfolding stays_safe_def
  proof (rule exI [of _ "ws1 @ ws2"], intro conjI)
    show "error_writes m2 = error_writes m @ ws1 @ ws2"
      using 1(1) 2(1) by simp
    show "error m2 = error m \<union> \<Union> (set (ws1 @ ws2))"
      using 1(2) 2(2) by auto
    show "ws1 @ ws2 \<noteq> [] \<longrightarrow> \<not> is_armed m2"
      using 1(3) 2(3) 2(4) by auto
    show "is_armed m2 \<longrightarrow> is_armed m"
      using 1(4) 2(4) by simp
  qed
qed

lemma stays_safe_armedD:
  assumes "stays_safe m m'" and "is_armed m'"
  shows "is_armed m \<and> error m' = error m \<and> error_writes m' = error_writes m"
  using assms unfolding stays_safe_def by auto

lemma stays_safe_dwe: "stays_safe m (disarm_with_error B e m)"
  unfolding stays_safe_def
  by (rule exI [of _ "[e]"]) (simp add: disarm_with_error_state)

lemma stays_safe_disarm: "stays_safe m (snd (snd (disarm B p m)))"
  by (rule stays_safe_same) (simp_all add: disarm_state)

lemma stays_safe_log_timing: "stays_safe m (log_timing B i m)"
  by (rule stays_safe_same) (simp_all add: log_timing_def Let_def)

lemma stays_safe_called: "stays_safe m (called c m)"
  by (rule stays_safe_same) (simp_all add: called_def)

lemma stays_safe_do_fast_checks: "stays_safe m (do_fast_checks B m)"
proof -
  have c: "stays_safe m (called DO_FAST_CHECKS m)"
    by (rule stays_safe_called)
  show ?thesis
    unfolding do_fast_checks_def Let_def
    by (cases "fast_checks (called DO_FAST_CHECKS m)")
       (simp_all add: c stays_safe_trans [OF c stays_safe_disarm]
          stays_safe_trans [OF c stays_safe_dwe])
qed

lemma apply_pwm_timings_writes:
  "error_writes (apply_pwm_timings B t tt m) =
     error_writes m @ (if brake_resistor_armed m then [] else [ERROR_BRAKE_RESISTOR_DISARMED])
       @ (if HAL_TIM_GET_FLAG m (TIM_FLAG_UPDATE B) then [ERROR_CONTROL_DEADLINE_MISSED] else [])"
  "error (apply_pwm_timings B t tt m) =
     error m \<union> (if brake_resistor_armed m then {} else ERROR_BRAKE_RESISTOR_DISARMED)
       \<union> (if HAL_TIM_GET_FLAG m (TIM_FLAG_UPDATE B) then ERROR_CONTROL_DEADLINE_MISSED else {})"
  "is_armed (apply_pwm_timings B t tt m) =
     (is_armed m \<and> brake_resistor_armed m \<and> \<not> HAL_TIM_GET_FLAG m (TIM_FLAG_UPDATE B))"
  by (auto simp add: apply_pwm_timings_def Let_def disarm_with_error_state HAL_TIM_GET_FLAG_def)

lemma stays_safe_apply_pwm_timings: "stays_safe m (apply_pwm_timings B t tt m)"
  unfolding stays_safe_def
  by (rule exI [of _ "(if brake_resistor_armed m then [] else [ERROR_BRAKE_RESISTOR_DISARMED])
       @ (if HAL_TIM_GET_FLAG m (TIM_FLAG_UPDATE B) then [ERROR_CONTROL_DEADLINE_MISSED] else [])"])
     (simp add: apply_pwm_timings_writes)

lemma do_checks_writes:
  "error_writes (snd (do_checks B ts m)) =
     error_writes m @ (if gate_driver_ready m then [] else [ERROR_DRV_FAULT])"
  "error (snd (do_checks B ts m)) = error m \<union> (if gate_driver_ready m then {} else ERROR_DRV_FAULT)"
  "is_armed (snd (do_checks B ts m)) = (is_armed m \<and> gate_driver_ready m)"
  "fst (do_checks B ts m) = gate_driver_ready m"
  by (simp_all add: do_checks_def Let_def called_def disarm_with_error_state)

lemma stays_safe_do_checks: "stays_safe m (snd (do_checks B ts m))"
  unfolding stays_safe_def
  by (rule exI [of _ "if gate_driver_ready m then [] else [ERROR_DRV_FAULT]"])
     (simp add: do_checks_writes)

lemma stays_safe_check_adc: "stays_safe m (snd (check_adc B adc m))"
  by (simp add: check_adc_def stays_safe_dwe stays_safe_refl)

lemma stays_safe_read_currents: "stays_safe m (snd (read_currents B a b c m))"
proof -
  have "stays_safe m (snd (check_adc B c (snd (check_adc B b (snd (check_adc B a m))))))"
    by (rule stays_safe_trans [OF stays_safe_trans [OF stays_safe_check_adc stays_safe_check_adc]
          stays_safe_check_adc])
  then show ?thesis
    by (simp add: read_currents_def Let_def split_def)
qed

lemma stays_safe_law_on_measurement:
  "stays_safe m (snd (law_on_measurement B p v cs t m))"
  by (rule stays_safe_same)
     (simp_all add: law_on_measurement_def split_def Let_def split: law_ptr.split)

lemma stays_safe_law_get_output:
  "stays_safe m (snd (law_get_output B p t m))"
  by (rule stays_safe_same)
     (simp_all add: law_get_output_def split_def Let_def split: law_ptr.split)

lemma stays_safe_dc_calib_update: "stays_safe m (dc_calib_update B cur m)"
  by (rule stays_safe_same) (simp_all add: dc_calib_update_def log_timing_def Let_def)

lemma stays_safe_current_sense: "stays_safe m (current_sense B cur m)"
proof -
  define dcv where "dcv = (dc_calib_tau (config m) * Fin (75 / 10) \<le> dc_calib_running_since m
             \<and> \<bar>phA (DC_calib m)\<bar> < max_dc_calib m
             \<and> \<bar>phB (DC_calib m)\<bar> < max_dc_calib m
             \<and> \<bar>phC (DC_calib m)\<bar> < max_dc_calib m)"
  define m1 where "m1 = (if current_valid cur \<and> dcv then
                  (let cA = phA cur - phA (DC_calib m);
                       cB = phB cur - phB (DC_calib m);
                       cC = phC cur - phC (DC_calib m);
                       leak = cA + cB + cC
                   in m\<lparr>I_leak := leak,
                        current_meas := \<lparr>phA = cA - leak / Fin 3,
                                         phB = cB - leak / Fin 3,
                                         phC = cC - leak / Fin 3\<rparr>\<rparr>)
                else m\<lparr>I_leak := NaN, current_meas := \<lparr>phA = NaN, phB = NaN, phC = NaN\<rparr>\<rparr>)"
  define m2 where "m2 = (if I_leak_max (config m1) < \<bar>I_leak m1\<bar>
                then disarm_with_error B ERROR_I_LEAK_OUT_OF_RANGE m1 else m1)"
  define m3 where "m3 = do_fast_checks B m2"
  define m4 where "m4 = (if SQ (effective_current_lim m3 + current_lim_margin (config m3))
                      < Fin 2 / Fin 3 * (SQ (phA (current_meas m3)) + SQ (phB (current_meas m3))
                                                + SQ (phC (current_meas m3)))
                then disarm_with_error B ERROR_CURRENT_LIMIT_VIOLATION m3 else m3)"
  have r: "current_sense B cur m =
     (case control_law m4 of
           None \<Rightarrow> m4
         | Some p \<Rightarrow>
             (let (err, m5) = law_on_measurement B p (vbus_voltage m4)
                                (phA (current_meas m4), phB (current_meas m4), phC (current_meas m4))
                                (last_update_timestamp m4) m4
              in if err \<noteq> ERROR_NONE then disarm_with_error B err m5 else m5))"
    unfolding current_sense_def m4_def m3_def m2_def m1_def dcv_def Let_def ..
  have 1: "stays_safe m m1" by (rule stays_safe_same) (simp_all add: m1_def Let_def)
  have 2: "stays_safe m1 m2" by (simp add: m2_def stays_safe_dwe stays_safe_refl)
  have 3: "stays_safe m2 m3" by (simp add: m3_def stays_safe_do_fast_checks)
  have 4: "stays_safe m3 m4" by (simp add: m4_def stays_safe_dwe stays_safe_refl)
  have 04: "stays_safe m m4"
    by (rule stays_safe_trans [OF stays_safe_trans [OF stays_safe_trans [OF 1 2] 3] 4])
  have 5: "stays_safe m4 (current_sense B cur m)"
    unfolding r
    by (auto simp add: split_def Let_def stays_safe_refl stays_safe_law_on_measurement
          intro: stays_safe_trans [OF stays_safe_law_on_measurement stays_safe_dwe] split: option.split)
  show ?thesis by (rule stays_safe_trans [OF 04 5])
qed


lemma stays_safe_get_control_law_output:
  "stays_safe m (snd (get_control_law_output B m))"
  by (cases "control_law m")
     (simp_all add: get_control_law_output_def stays_safe_refl stays_safe_law_get_output)

lemma stays_safe_apply_control_law_output:
  "stays_safe m (snd (apply_control_law_output B r m))"
  by (cases r)
     (simp_all add: apply_control_law_output_def split_def Let_def stays_safe_refl
        stays_safe_apply_pwm_timings stays_safe_dwe)

lemma stays_safe_pwm_update: "stays_safe m (pwm_update B m)"
proof -
  define m1 where "m1 = snd (get_control_law_output B m)"
  define r2 where "r2 = apply_control_law_output B (fst (get_control_law_output B m)) m1"
  define i_bus1 where "i_bus1 = (if \<not> is_armed (snd r2) then Fin 0 else fst r2)"
  define m3 where "m3 = (snd r2)\<lparr>I_bus := i_bus1\<rparr>"
  define m4 where "m4 = (if i_bus1 < I_bus_hard_min (config m3) \<or> I_bus_hard_max (config m3) < i_bus1
                then disarm_with_error B ERROR_I_BUS_OUT_OF_RANGE m3 else m3)"
  have r: "pwm_update B m = log_timing B TIMING_LOG_CTRL_DONE (update_brake_current m4)"
    unfolding pwm_update_unfold m4_def m3_def i_bus1_def r2_def m1_def Let_def ..
  have 1: "stays_safe m m1"
    unfolding m1_def by (rule stays_safe_get_control_law_output)
  have 2: "stays_safe m1 (snd r2)"
    unfolding r2_def by (rule stays_safe_apply_control_law_output)
  have 3: "stays_safe (snd r2) m3" by (rule stays_safe_same) (simp_all add: m3_def)
  have 4: "stays_safe m3 m4" by (simp add: m4_def stays_safe_dwe stays_safe_refl)
  have 5: "stays_safe m4 (pwm_update B m)"
    unfolding r update_brake_current_def
    by (rule stays_safe_trans [OF stays_safe_called stays_safe_log_timing])
  show ?thesis
    by (rule stays_safe_trans [OF stays_safe_trans [OF stays_safe_trans
          [OF stays_safe_trans [OF 1 2] 3] 4] 5])
qed

section \<open>The two halves of the period\<close>

lemma counting_down_log_timing [simp]: "counting_down (log_timing B i m) = counting_down m"
  by (simp add: log_timing_def Let_def)

lemma tim_update_cb_down:
  assumes "\<not> counting_down m" and "CR1 (timer m) AND TIM_CR1_DIR B \<noteq> 0"
  shows "tim_update_cb B adc_a adc_b adc_c m =
     (let m1 = m\<lparr>last_update_timestamp := last_update_timestamp m
                    + of_nat (TIM_1_8_PERIOD_CLOCKS B * (TIM_1_8_RCR B + 1)),
                 counting_down := True\<rparr>;
          half = (word_of_nat (TIM_1_8_PERIOD_CLOCKS B div 2) :: 16 word);
          m3 = apply_pwm_timings B (half, half, half) True (log_timing B TIMING_LOG_UPDATE_START m1);
          current = fst (read_currents B adc_a adc_b adc_c m3);
          m5 = log_timing B TIMING_LOG_CURRENT_MEAS (snd (read_currents B adc_a adc_b adc_c m3))
      in pwm_update B (dc_calib_update B current m5))"
  using assms by (simp add: tim_update_cb_def Let_def split_def)

lemma tim_update_cb_up:
  assumes "counting_down m" and "CR1 (timer m) AND TIM_CR1_DIR B = 0"
  shows "tim_update_cb B adc_a adc_b adc_c m =
     (let m1 = m\<lparr>last_update_timestamp := last_update_timestamp m
                    + of_nat (TIM_1_8_PERIOD_CLOCKS B * (TIM_1_8_RCR B + 1)),
                 counting_down := False\<rparr>;
          m3 = log_timing B TIMING_LOG_UPDATE_START m1;
          current = fst (read_currents B adc_a adc_b adc_c m3);
          m5 = log_timing B TIMING_LOG_CURRENT_MEAS (snd (read_currents B adc_a adc_b adc_c m3))
      in current_sense B current m5)"
  using assms by (simp add: tim_update_cb_def Let_def split_def)


lemma dc_calib_update_fields:
  "DC_calib (dc_calib_update B cur m) =
     (if current_valid cur then
        \<lparr>phA = phA (DC_calib m) + (phA cur - phA (DC_calib m))
                 * std_min (Fin 2 * interrupt_period B / dc_calib_tau (config m)) (Fin 1),
         phB = phB (DC_calib m) + (phB cur - phB (DC_calib m))
                 * std_min (Fin 2 * interrupt_period B / dc_calib_tau (config m)) (Fin 1),
         phC = phC (DC_calib m) + (phC cur - phC (DC_calib m))
                 * std_min (Fin 2 * interrupt_period B / dc_calib_tau (config m)) (Fin 1)\<rparr>
      else \<lparr>phA = Fin 0, phB = Fin 0, phC = Fin 0\<rparr>)"
  "dc_calib_running_since (dc_calib_update B cur m) =
     (if current_valid cur then dc_calib_running_since m + Fin 2 * interrupt_period B else Fin 0)"
  by (simp_all add: dc_calib_update_def Let_def log_timing_def)

lemma current_meas_dwe:
  "current_meas (disarm_with_error B e m) = current_meas m"
  "I_leak (disarm_with_error B e m) = I_leak m"
  by (simp_all add: disarm_with_error_state)

lemma current_meas_do_fast_checks:
  "current_meas (do_fast_checks B m) = current_meas m"
  "I_leak (do_fast_checks B m) = I_leak m"
  by (cases "fast_checks m";
      simp add: do_fast_checks_def Let_def called_def disarm_state disarm_with_error_state)+

lemma current_meas_law_on_measurement:
  "current_meas (snd (law_on_measurement B p v cs t m)) = current_meas m"
  "I_leak (snd (law_on_measurement B p v cs t m)) = I_leak m"
  by (cases p; simp add: law_on_measurement_def split_def Let_def)+

lemma current_sense_invalid:
  assumes "\<not> current_valid cur"
  shows "current_meas (current_sense B cur m) = \<lparr>phA = NaN, phB = NaN, phC = NaN\<rparr>
         \<and> I_leak (current_sense B cur m) = NaN"
proof -
  define dcv where "dcv = (dc_calib_tau (config m) * Fin (75 / 10) \<le> dc_calib_running_since m
             \<and> \<bar>phA (DC_calib m)\<bar> < max_dc_calib m
             \<and> \<bar>phB (DC_calib m)\<bar> < max_dc_calib m
             \<and> \<bar>phC (DC_calib m)\<bar> < max_dc_calib m)"
  define m1 where "m1 = (if current_valid cur \<and> dcv then
                  (let cA = phA cur - phA (DC_calib m);
                       cB = phB cur - phB (DC_calib m);
                       cC = phC cur - phC (DC_calib m);
                       leak = cA + cB + cC
                   in m\<lparr>I_leak := leak,
                        current_meas := \<lparr>phA = cA - leak / Fin 3,
                                         phB = cB - leak / Fin 3,
                                         phC = cC - leak / Fin 3\<rparr>\<rparr>)
                else m\<lparr>I_leak := NaN, current_meas := \<lparr>phA = NaN, phB = NaN, phC = NaN\<rparr>\<rparr>)"
  define m2 where "m2 = (if I_leak_max (config m1) < \<bar>I_leak m1\<bar>
                then disarm_with_error B ERROR_I_LEAK_OUT_OF_RANGE m1 else m1)"
  define m3 where "m3 = do_fast_checks B m2"
  define m4 where "m4 = (if SQ (effective_current_lim m3 + current_lim_margin (config m3))
                      < Fin 2 / Fin 3 * (SQ (phA (current_meas m3)) + SQ (phB (current_meas m3))
                                                + SQ (phC (current_meas m3)))
                then disarm_with_error B ERROR_CURRENT_LIMIT_VIOLATION m3 else m3)"
  have r: "current_sense B cur m =
     (case control_law m4 of
           None \<Rightarrow> m4
         | Some p \<Rightarrow>
             (let (err, m5) = law_on_measurement B p (vbus_voltage m4)
                                (phA (current_meas m4), phB (current_meas m4), phC (current_meas m4))
                                (last_update_timestamp m4) m4
              in if err \<noteq> ERROR_NONE then disarm_with_error B err m5 else m5))"
    unfolding current_sense_def m4_def m3_def m2_def m1_def dcv_def Let_def ..
  have 1: "current_meas m1 = \<lparr>phA = NaN, phB = NaN, phC = NaN\<rparr> \<and> I_leak m1 = NaN"
    using assms by (simp add: m1_def)
  have 2: "current_meas m2 = current_meas m1 \<and> I_leak m2 = I_leak m1"
    by (simp add: m2_def current_meas_dwe)
  have 3: "current_meas m3 = current_meas m2 \<and> I_leak m3 = I_leak m2"
    by (simp add: m3_def current_meas_do_fast_checks)
  have 4: "current_meas m4 = current_meas m3 \<and> I_leak m4 = I_leak m3"
    by (simp add: m4_def current_meas_dwe)
  have 5: "current_meas (current_sense B cur m) = current_meas m4
           \<and> I_leak (current_sense B cur m) = I_leak m4"
    unfolding r
    by (simp add: split_def Let_def current_meas_dwe current_meas_law_on_measurement
          split: option.split)
  show ?thesis
    using 1 2 3 4 5 by simp
qed

text \<open>
  A cycle whose direction differs from the stored one runs the saturation tests and
  the conversion in a state \<open>m5\<close> that has the sensing state of the start, and then
  either the calibration and PWM half or the current-sense half.
\<close>

lemma tim_update_cb_halves:
  assumes "counting_down m \<noteq> (CR1 (timer m) AND TIM_CR1_DIR B \<noteq> 0)"
  shows "\<exists>m5. same_sensing (m\<lparr>counting_down := \<not> counting_down m\<rparr>) m5 \<and> stays_safe m m5
           \<and> tim_update_cb B adc_a adc_b adc_c m =
               (if CR1 (timer m) AND TIM_CR1_DIR B \<noteq> 0
                then pwm_update B (dc_calib_update B (fst (read_currents B adc_a adc_b adc_c m)) m5)
                else current_sense B (fst (read_currents B adc_a adc_b adc_c m)) m5)"
proof (cases "CR1 (timer m) AND TIM_CR1_DIR B \<noteq> 0")
  case True
  with assms have nd: "\<not> counting_down m" by simp
  define m1 where "m1 = m\<lparr>last_update_timestamp := last_update_timestamp m
                    + of_nat (TIM_1_8_PERIOD_CLOCKS B * (TIM_1_8_RCR B + 1)),
                 counting_down := True\<rparr>"
  define half where "half = (word_of_nat (TIM_1_8_PERIOD_CLOCKS B div 2) :: 16 word)"
  define m3 where "m3 = apply_pwm_timings B (half, half, half) True (log_timing B TIMING_LOG_UPDATE_START m1)"
  define m5 where "m5 = log_timing B TIMING_LOG_CURRENT_MEAS (snd (read_currents B adc_a adc_b adc_c m3))"
  have res: "tim_update_cb B adc_a adc_b adc_c m
               = pwm_update B (dc_calib_update B (fst (read_currents B adc_a adc_b adc_c m3)) m5)"
    using tim_update_cb_down [OF nd True, of adc_a adc_b adc_c]
    by (simp add: Let_def m1_def half_def m3_def m5_def)
  have s13: "same_sensing m1 m3"
    unfolding m3_def
    by (rule same_sensing_trans [OF same_sensing_log_timing same_sensing_apply_pwm_timings])
  have s35: "same_sensing m3 m5"
    unfolding m5_def
    by (rule same_sensing_trans [OF same_sensing_read_currents same_sensing_log_timing])
  have s15: "same_sensing m1 m5"
    by (rule same_sensing_trans [OF s13 s35])
  have cur: "fst (read_currents B adc_a adc_b adc_c m3) = fst (read_currents B adc_a adc_b adc_c m)"
  proof -
    have "fst (read_currents B adc_a adc_b adc_c m3) = fst (read_currents B adc_a adc_b adc_c m1)"
      by (rule fst_read_currents_cong [OF s13])
    also have "\<dots> = fst (read_currents B adc_a adc_b adc_c m)"
      by (simp add: fst_read_currents adc_to_current_def phase_current_from_adcval_def m1_def fst_check_adc)
    finally show ?thesis .
  qed
  have a: "same_sensing (m\<lparr>counting_down := \<not> counting_down m\<rparr>) m5"
    using s15 nd by (simp add: same_sensing_def m1_def)
  have 0: "stays_safe m m1" by (rule stays_safe_same) (simp_all add: m1_def)
  have 1: "stays_safe m1 m3"
    unfolding m3_def
    by (rule stays_safe_trans [OF stays_safe_log_timing stays_safe_apply_pwm_timings])
  have 2: "stays_safe m3 m5"
    unfolding m5_def
    by (rule stays_safe_trans [OF stays_safe_read_currents stays_safe_log_timing])
  have b: "stays_safe m m5"
    by (rule stays_safe_trans [OF stays_safe_trans [OF 0 1] 2])
  show ?thesis
    using a b res True by (auto simp add: cur)
next
  case False
  with assms have cd: "counting_down m" by simp
  have F: "CR1 (timer m) AND TIM_CR1_DIR B = 0" using False by simp
  define m1 where "m1 = m\<lparr>last_update_timestamp := last_update_timestamp m
                    + of_nat (TIM_1_8_PERIOD_CLOCKS B * (TIM_1_8_RCR B + 1)),
                 counting_down := False\<rparr>"
  define m3 where "m3 = log_timing B TIMING_LOG_UPDATE_START m1"
  define m5 where "m5 = log_timing B TIMING_LOG_CURRENT_MEAS (snd (read_currents B adc_a adc_b adc_c m3))"
  have res: "tim_update_cb B adc_a adc_b adc_c m
               = current_sense B (fst (read_currents B adc_a adc_b adc_c m3)) m5"
    using tim_update_cb_up [OF cd F, of adc_a adc_b adc_c]
    by (simp add: Let_def m1_def m3_def m5_def)
  have s13: "same_sensing m1 m3"
    unfolding m3_def by (rule same_sensing_log_timing)
  have s15: "same_sensing m1 m5"
    unfolding m5_def
    by (rule same_sensing_trans [OF s13
          same_sensing_trans [OF same_sensing_read_currents same_sensing_log_timing]])
  have cur: "fst (read_currents B adc_a adc_b adc_c m3) = fst (read_currents B adc_a adc_b adc_c m)"
  proof -
    have "fst (read_currents B adc_a adc_b adc_c m3) = fst (read_currents B adc_a adc_b adc_c m1)"
      by (rule fst_read_currents_cong [OF s13])
    also have "\<dots> = fst (read_currents B adc_a adc_b adc_c m)"
      by (simp add: fst_read_currents adc_to_current_def phase_current_from_adcval_def m1_def fst_check_adc)
    finally show ?thesis .
  qed
  have a: "same_sensing (m\<lparr>counting_down := \<not> counting_down m\<rparr>) m5"
    using s15 cd by (simp add: same_sensing_def m1_def)
  have 0: "stays_safe m m1" by (rule stays_safe_same) (simp_all add: m1_def)
  have 1: "stays_safe m1 m5"
    unfolding m5_def m3_def
    by (rule stays_safe_trans [OF stays_safe_log_timing
          stays_safe_trans [OF stays_safe_read_currents stays_safe_log_timing]])
  have b: "stays_safe m m5"
    by (rule stays_safe_trans [OF 0 1])
  show ?thesis
    using a b res False by (auto simp add: cur)
qed

lemma stays_safe_tim_update_cb: "stays_safe m (tim_update_cb B adc_a adc_b adc_c m)"
proof (cases "counting_down m = (CR1 (timer m) AND TIM_CR1_DIR B \<noteq> 0)")
  case True
  then have "tim_update_cb B adc_a adc_b adc_c m =
           disarm_with_error B ERROR_TIMER_UPDATE_MISSED
             (m\<lparr>last_update_timestamp := last_update_timestamp m
                    + of_nat (TIM_1_8_PERIOD_CLOCKS B * (TIM_1_8_RCR B + 1))\<rparr>)"
    by (simp add: tim_update_cb_def Let_def)
  moreover have "stays_safe m (m\<lparr>last_update_timestamp := last_update_timestamp m
                    + of_nat (TIM_1_8_PERIOD_CLOCKS B * (TIM_1_8_RCR B + 1))\<rparr>)"
    by (rule stays_safe_same) simp_all
  ultimately show ?thesis
    by (simp add: stays_safe_trans [OF _ stays_safe_dwe])
next
  case False
  from tim_update_cb_halves [OF False, of adc_a adc_b adc_c]
  obtain m5 where s: "stays_safe m m5"
    and r: "tim_update_cb B adc_a adc_b adc_c m =
               (if CR1 (timer m) AND TIM_CR1_DIR B \<noteq> 0
                then pwm_update B (dc_calib_update B (fst (read_currents B adc_a adc_b adc_c m)) m5)
                else current_sense B (fst (read_currents B adc_a adc_b adc_c m)) m5)"
    by blast
  have "stays_safe m5 (tim_update_cb B adc_a adc_b adc_c m)"
    unfolding r
    by (simp add: stays_safe_current_sense
          stays_safe_trans [OF stays_safe_dc_calib_update stays_safe_pwm_update])
  with s show ?thesis by (rule stays_safe_trans)
qed

text \<open>The DC calibration after a cycle that is not a missed update.\<close>

lemma tim_update_cb_dc_calib:
  assumes "counting_down m \<noteq> (CR1 (timer m) AND TIM_CR1_DIR B \<noteq> 0)"
  shows "DC_calib (tim_update_cb B adc_a adc_b adc_c m) =
           (if CR1 (timer m) AND TIM_CR1_DIR B \<noteq> 0
            then DC_calib (dc_calib_update B (fst (read_currents B adc_a adc_b adc_c m)) m)
            else DC_calib m)"
    and "dc_calib_running_since (tim_update_cb B adc_a adc_b adc_c m) =
           (if CR1 (timer m) AND TIM_CR1_DIR B \<noteq> 0
            then dc_calib_running_since
                   (dc_calib_update B (fst (read_currents B adc_a adc_b adc_c m)) m)
            else dc_calib_running_since m)"
proof -
  from tim_update_cb_halves [OF assms, of adc_a adc_b adc_c]
  obtain m5 where s: "same_sensing (m\<lparr>counting_down := \<not> counting_down m\<rparr>) m5"
    and r: "tim_update_cb B adc_a adc_b adc_c m =
               (if CR1 (timer m) AND TIM_CR1_DIR B \<noteq> 0
                then pwm_update B (dc_calib_update B (fst (read_currents B adc_a adc_b adc_c m)) m5)
                else current_sense B (fst (read_currents B adc_a adc_b adc_c m)) m5)"
    by blast
  let ?cur = "fst (read_currents B adc_a adc_b adc_c m)"
  have f5: "DC_calib m5 = DC_calib m" "dc_calib_running_since m5 = dc_calib_running_since m"
           "config m5 = config m"
    using s by (simp_all add: same_sensing_def)
  have p: "DC_calib (pwm_update B (dc_calib_update B ?cur m5)) = DC_calib (dc_calib_update B ?cur m5)"
          "dc_calib_running_since (pwm_update B (dc_calib_update B ?cur m5))
             = dc_calib_running_since (dc_calib_update B ?cur m5)"
    using same_sensing_pwm_update [of "dc_calib_update B ?cur m5" B]
    by (simp_all add: same_sensing_def)
  have c: "DC_calib (current_sense B ?cur m5) = DC_calib m5"
          "dc_calib_running_since (current_sense B ?cur m5) = dc_calib_running_since m5"
    using same_sensing_current_sense [of m5 B ?cur]
    by (simp_all add: same_sensing_def)
  show "DC_calib (tim_update_cb B adc_a adc_b adc_c m) =
           (if CR1 (timer m) AND TIM_CR1_DIR B \<noteq> 0
            then DC_calib (dc_calib_update B (fst (read_currents B adc_a adc_b adc_c m)) m)
            else DC_calib m)"
    by (simp add: r p c dc_calib_update_fields f5)
  show "dc_calib_running_since (tim_update_cb B adc_a adc_b adc_c m) =
           (if CR1 (timer m) AND TIM_CR1_DIR B \<noteq> 0
            then dc_calib_running_since
                   (dc_calib_update B (fst (read_currents B adc_a adc_b adc_c m)) m)
            else dc_calib_running_since m)"
    by (simp add: r p c dc_calib_update_fields f5)
qed

text \<open>The measured current after a current-sense half with an invalid sample.\<close>

lemma tim_update_cb_invalid_sense:
  assumes "counting_down m" and "CR1 (timer m) AND TIM_CR1_DIR B = 0"
    and "\<not> current_valid (fst (read_currents B adc_a adc_b adc_c m))"
  shows "current_meas (tim_update_cb B adc_a adc_b adc_c m) = \<lparr>phA = NaN, phB = NaN, phC = NaN\<rparr>"
proof -
  have nm: "counting_down m \<noteq> (CR1 (timer m) AND TIM_CR1_DIR B \<noteq> 0)"
    using assms by simp
  from tim_update_cb_halves [OF nm, of adc_a adc_b adc_c]
  obtain m5 where
    r: "tim_update_cb B adc_a adc_b adc_c m =
               (if CR1 (timer m) AND TIM_CR1_DIR B \<noteq> 0
                then pwm_update B (dc_calib_update B (fst (read_currents B adc_a adc_b adc_c m)) m5)
                else current_sense B (fst (read_currents B adc_a adc_b adc_c m)) m5)"
    by blast
  show ?thesis
    using assms(2) by (simp add: r current_sense_invalid [OF assms(3)])
qed

section \<open>The polling loop\<close>

lemma poll_stable: "(\<And>j. osDelay j m = m) \<Longrightarrow> poll k i osDelay m = m"
  by (induction k arbitrary: i) simp_all

section \<open>Facts used by the examples\<close>

lemma less_NaN: "\<not> (x < NaN)"
  by (cases x) simp_all

lemma times_NaN: "x * NaN = NaN"
  by (cases x) simp_all

lemma check_adc_in_range:
  "adc \<noteq> 0xffffffff \<Longrightarrow> \<not> adc < CURRENT_ADC_LOWER_BOUND B \<Longrightarrow> \<not> CURRENT_ADC_UPPER_BOUND B < adc
   \<Longrightarrow> check_adc B adc m = (adc, m)"
  by (simp add: check_adc_def)

lemma current_sense_keeps_armed:
  assumes "is_armed m" and "control_law m = None" and "fast_checks m = NO_REQUEST"
    and "\<not> dc_calib_tau (config m) * Fin (75 / 10) \<le> dc_calib_running_since m"
  shows "is_armed (current_sense B cur m)"
  using assms
  by (simp add: current_sense_def Let_def SQ_def less_NaN times_NaN do_fast_checks_def called_def)

lemma M_armed_sense_cycle: "is_armed (tim_update_cb B0 2048 2048 2048 M_armed)"
proof -
  have cd: "counting_down M_armed" by (simp add: M_armed_def M0_def)
  have F: "CR1 (timer M_armed) AND TIM_CR1_DIR B0 = 0" by (simp add: M_armed_def M0_def B0_def)
  have f: "is_armed M_armed" "control_law M_armed = None" "fast_checks M_armed = NO_REQUEST"
    "dc_calib_tau (config M_armed) = Fin (1 / 4)" "dc_calib_running_since M_armed = Fin (1 / 4)"
    by (simp_all add: M_armed_def M0_def)
  have c: "\<And>m. check_adc B0 2048 m = (2048, m)"
    by (rule check_adc_in_range) (simp_all add: B0_def)
  show ?thesis
    unfolding tim_update_cb_up [OF cd F] Let_def
    by (rule current_sense_keeps_armed)
       (simp_all add: read_currents_def c log_timing_def Let_def f)
qed

text \<open>The state in which the polling loop of the resistance measurement starts from \<open>M0\<close>.\<close>

lemma arm_M0:
  "snd (arm B0 (Some (ResistanceLaw 0)) (M0\<lparr>R_laws := (R_laws M0)(0 := law)\<rparr>)) =
     M0\<lparr>R_laws := (R_laws M0)(0 := R_reset law), control_law := Some (ResistanceLaw 0),
        calls := [AXIS_CONTROLLER_RESET], is_armed := True\<rparr>"
  by (simp add: arm_def Let_def called_def law_reset_def M0_def)

lemma measure_idle:
  "measure_phase_resistance B0 idle 0 (Fin 0) (Fin 2) M0 =
     (False,
      M0\<lparr>R_laws := (R_laws M0)(0 := \<lparr>max_voltage = Fin 2, test_current = Fin 0,
                                      test_voltage = Fin 0, test_mod = NaN\<rparr>),
         calls := [AXIS_CONTROLLER_RESET, GATE_DRIVER_SET_ENABLED False, UPDATE_BRAKE_CURRENT,
                   UPDATE_BRAKE_CURRENT, UPDATE_BRAKE_CURRENT],
         config := (config M0)\<lparr>phase_resistance := NaN\<rparr>,
         error := ERROR_PHASE_RESISTANCE_OUT_OF_RANGE,
         error_writes := [ERROR_PHASE_RESISTANCE_OUT_OF_RANGE]\<rparr>)"
proof -
  have p: "\<And>m. poll 3000 0 idle m = m"
    by (rule poll_stable) (simp add: idle_def)
  have f: "is_armed M0 = False" "control_law M0 = None" "error M0 = {}" "calls M0 = []"
          "timer M0 = \<lparr>CR1 = 0, SR = 0, BDTR = 0, CCR1 = 0, CCR2 = 0, CCR3 = 0\<rparr>"
          "error_writes M0 = []"
    by (simp_all add: M0_def)
  show ?thesis
    unfolding measure_phase_resistance_def Let_def arm_M0 p
    by (simp add: disarm_state disarm_with_error_state get_resistance_def R_reset_def
          ResistanceMeasurementCotnrolLaw_init_def f)
qed

lemma measure_driven:
  "measure_phase_resistance B0 driven_to_1V 0 (Fin 0) (Fin 2) M0 =
     (True,
      M0\<lparr>R_laws := (R_laws M0)(0 := \<lparr>max_voltage = Fin 2, test_current = Fin 0,
                                      test_voltage = Fin 1, test_mod = NaN\<rparr>),
         calls := [AXIS_CONTROLLER_RESET, GATE_DRIVER_SET_ENABLED False, UPDATE_BRAKE_CURRENT],
         config := (config M0)\<lparr>phase_resistance := PInf\<rparr>\<rparr>)"
proof -
  define m2 where "m2 = M0\<lparr>R_laws := (R_laws M0)(0 := R_reset (ResistanceMeasurementCotnrolLaw_init
                  \<lparr>test_current := Fin 0, max_voltage := Fin 2\<rparr>)),
        control_law := Some (ResistanceLaw 0),
        calls := [AXIS_CONTROLLER_RESET], is_armed := True\<rparr>"
  have c: "requested_state m2 = AXIS_STATE_UNDEFINED \<and> is_armed m2"
    by (simp add: m2_def M0_def)
  have s: "poll 2999 (Suc 0) driven_to_1V (driven_to_1V 0 m2) = driven_to_1V 0 m2"
    by (rule poll_stable) (simp add: driven_to_1V_def)
  have n: "(3000::nat) = Suc 2999" by simp
  have "poll (Suc 2999) 0 driven_to_1V m2 = poll 2999 (Suc 0) driven_to_1V (driven_to_1V 0 m2)"
    using c by (simp only: poll.simps simp_thms if_False)
  then have p: "poll 3000 0 driven_to_1V m2 = driven_to_1V 0 m2"
    by (simp only: n s)
  have f: "is_armed M0 = False" "control_law M0 = None" "error M0 = {}" "calls M0 = []"
          "timer M0 = \<lparr>CR1 = 0, SR = 0, BDTR = 0, CCR1 = 0, CCR2 = 0, CCR3 = 0\<rparr>"
          "error_writes M0 = []"
    by (simp_all add: M0_def)
  show ?thesis
    unfolding measure_phase_resistance_def Let_def arm_M0 m2_def [symmetric] p
    by (simp add: m2_def driven_to_1V_def disarm_state get_resistance_def R_reset_def
          ResistanceMeasurementCotnrolLaw_init_def f)
qed

lemma read_currents_M_down_invalid:
  "\<not> current_valid (fst (read_currents B0 0xffffffff 2048 2048 M_down))"
  by (simp add: fst_read_currents fst_check_adc adc_to_current_def infer_missing_def
        current_valid_def M_down_def M0_def)

lemma read_currents_M_inf_gain:
  "fst (read_currents B0 2049 2049 2049 M_inf_gain) = \<lparr>phA = PInf, phB = PInf, phC = PInf\<rparr>"
  by (simp add: fst_read_currents fst_check_adc adc_to_current_def infer_missing_def
        phase_current_from_adcval_def B0_def M_inf_gain_def M_down_def M0_def)

section \<open>The measurement routines and the calibration\<close>

lemma poll_break:
  "\<not> (requested_state m = AXIS_STATE_UNDEFINED \<and> is_armed m) \<Longrightarrow> poll k i osDelay m = m"
  by (cases k) simp_all

lemma measure_disarmed:
  "\<not> is_armed (snd (measure_phase_resistance B osDelay a tc mv m))"
  "\<not> is_armed (snd (measure_phase_inductance B osDelay a tv m))"
  by (simp_all add: measure_phase_resistance_def measure_phase_inductance_def Let_def
        disarm_state disarm_with_error_state)

lemma is_armed_update_current_controller_gains:
  "is_armed (update_current_controller_gains m) = is_armed m"
  "error (update_current_controller_gains m) = error m"
  "error_writes (update_current_controller_gains m) = error_writes m"
  by (simp_all add: update_current_controller_gains_def Let_def)

lemma run_calibration_disarmed:
  assumes "motor_type (config m) = MOTOR_TYPE_HIGH_CURRENT \<or> motor_type (config m) = MOTOR_TYPE_ACIM"
  shows "\<not> is_armed (snd (run_calibration B osDelay_R osDelay_L a b m))"
  using assms
  by (simp add: run_calibration_def Let_def measure_disarmed
        is_armed_update_current_controller_gains)

lemma run_calibration_not_calibrated:
  assumes "motor_type (config m) \<noteq> MOTOR_TYPE_HIGH_CURRENT \<and> motor_type (config m) \<noteq> MOTOR_TYPE_ACIM"
  shows "is_armed (snd (run_calibration B osDelay_R osDelay_L a b m)) = is_armed m
         \<and> error (snd (run_calibration B osDelay_R osDelay_L a b m)) = error m
         \<and> error_writes (snd (run_calibration B osDelay_R osDelay_L a b m)) = error_writes m"
  using assms
  by (simp add: run_calibration_def Let_def is_armed_update_current_controller_gains)

section \<open>The claims\<close>

text \<open>
  Claim C1.  Every call of \<^verbatim>\<open>apply_pwm_timings(timings, tentative)\<close> leaves the three
  timings in the compare registers, and never writes the status register.  If the
  update flag is set in the status register when the function reads it after the
  writes, the motor is disarmed, the control law is detached and the error mask holds
  the control-deadline-missed error, whatever the timings and the tentative flag.
\<close>

theorem apply_pwm_timings_latch:
  "CCR1 (timer (apply_pwm_timings B timings tentative m)) = ucast (fst timings)
   \<and> CCR2 (timer (apply_pwm_timings B timings tentative m)) = ucast (fst (snd timings))
   \<and> CCR3 (timer (apply_pwm_timings B timings tentative m)) = ucast (snd (snd timings))
   \<and> SR (timer (apply_pwm_timings B timings tentative m)) = SR (timer m)
   \<and> (HAL_TIM_GET_FLAG m (TIM_FLAG_UPDATE B) \<longrightarrow>
        \<not> is_armed (apply_pwm_timings B timings tentative m)
        \<and> control_law (apply_pwm_timings B timings tentative m) = None
        \<and> ERROR_CONTROL_DEADLINE_MISSED \<subseteq> error (apply_pwm_timings B timings tentative m))"
  by (simp add: apply_pwm_timings_def Let_def disarm_with_error_state HAL_TIM_GET_FLAG_def)

text \<open>An armed motor, the update flag set, a commit that is not tentative.\<close>

theorem apply_pwm_timings_latch_witness:
  "HAL_TIM_GET_FLAG M_latched (TIM_FLAG_UPDATE B0)
   \<and> \<not> is_armed (apply_pwm_timings B0 (1750, 1750, 1750) False M_latched)
   \<and> ERROR_CONTROL_DEADLINE_MISSED \<subseteq> error (apply_pwm_timings B0 (1750, 1750, 1750) False M_latched)
   \<and> CCR1 (timer (apply_pwm_timings B0 (1750, 1750, 1750) False M_latched)) = 1750"
proof -
  have h: "HAL_TIM_GET_FLAG M_latched (TIM_FLAG_UPDATE B0)"
    by (simp add: HAL_TIM_GET_FLAG_def M_latched_def M0_def B0_def)
  show ?thesis
    using h apply_pwm_timings_latch [of B0 "(1750, 1750, 1750)" False M_latched] by simp
qed

text \<open>
  Claim C2, as amended.  Every write of the error mask leaves the motor disarmed when
  the function that made it returns, also when the flag written was already pending.
  \<^verbatim>\<open>disarm_with_error\<close> writes its error and disarms.  \<^verbatim>\<open>apply_pwm_timings\<close> writes
  exactly when the brake resistor is disarmed or the update flag is set, \<^verbatim>\<open>do_checks\<close>
  exactly when the gate driver is not ready, and they leave the motor armed only if
  it was armed and they wrote nothing.  \<^verbatim>\<open>tim_update_cb\<close> changes the mask only by its
  writes, ends disarmed whenever it wrote, and never arms.  \<^verbatim>\<open>disarm\<close> writes nothing.
  \<^verbatim>\<open>measure_phase_resistance\<close>, \<^verbatim>\<open>measure_phase_inductance\<close> and, for the motor types
  it calibrates, \<^verbatim>\<open>run_calibration\<close> return with the motor disarmed; for the other
  motor types \<^verbatim>\<open>run_calibration\<close> writes nothing and does not arm.  \<^verbatim>\<open>arm\<close> does not
  read the error mask: it writes nothing to it, and the motor is armed afterwards if
  it was armed before or the brake resistor is armed.
\<close>

theorem error_writes_disarm:
  "stays_safe m (tim_update_cb B adc_a adc_b adc_c m)
   \<and> stays_safe m (apply_pwm_timings B timings tentative m)
   \<and> error_writes (apply_pwm_timings B timings tentative m) =
       error_writes m @ (if brake_resistor_armed m then [] else [ERROR_BRAKE_RESISTOR_DISARMED])
         @ (if HAL_TIM_GET_FLAG m (TIM_FLAG_UPDATE B) then [ERROR_CONTROL_DEADLINE_MISSED] else [])
   \<and> is_armed (apply_pwm_timings B timings tentative m) =
       (is_armed m \<and> brake_resistor_armed m \<and> \<not> HAL_TIM_GET_FLAG m (TIM_FLAG_UPDATE B))
   \<and> stays_safe m (snd (do_checks B ts m))
   \<and> error_writes (snd (do_checks B ts m)) =
       error_writes m @ (if gate_driver_ready m then [] else [ERROR_DRV_FAULT])
   \<and> is_armed (snd (do_checks B ts m)) = (is_armed m \<and> gate_driver_ready m)
   \<and> \<not> is_armed (disarm_with_error B e m)
   \<and> error (disarm_with_error B e m) = error m \<union> e
   \<and> error_writes (disarm_with_error B e m) = error_writes m @ [e]
   \<and> \<not> is_armed (snd (snd (disarm B p m)))
   \<and> error (snd (snd (disarm B p m))) = error m
   \<and> error_writes (snd (snd (disarm B p m))) = error_writes m
   \<and> \<not> is_armed (snd (measure_phase_resistance B osDelay a test_current_arg max_voltage_arg m))
   \<and> \<not> is_armed (snd (measure_phase_inductance B osDelay a test_voltage_arg m))
   \<and> (motor_type (config m) = MOTOR_TYPE_HIGH_CURRENT \<or> motor_type (config m) = MOTOR_TYPE_ACIM
        \<longrightarrow> \<not> is_armed (snd (run_calibration B osDelay_R osDelay_L a b m)))
   \<and> (motor_type (config m) \<noteq> MOTOR_TYPE_HIGH_CURRENT \<and> motor_type (config m) \<noteq> MOTOR_TYPE_ACIM
        \<longrightarrow> is_armed (snd (run_calibration B osDelay_R osDelay_L a b m)) = is_armed m
          \<and> error (snd (run_calibration B osDelay_R osDelay_L a b m)) = error m
          \<and> error_writes (snd (run_calibration B osDelay_R osDelay_L a b m)) = error_writes m)
   \<and> is_armed (snd (arm B law m)) = (is_armed m \<or> brake_resistor_armed m)
   \<and> error (snd (arm B law m)) = error m
   \<and> error_writes (snd (arm B law m)) = error_writes m"
proof -
  have 1: "\<not> is_armed (snd (measure_phase_resistance B osDelay a test_current_arg max_voltage_arg m))"
    by (rule measure_disarmed)
  have 2: "\<not> is_armed (snd (measure_phase_inductance B osDelay a test_voltage_arg m))"
    by (rule measure_disarmed)
  have 3: "is_armed (snd (arm B law m)) = (is_armed m \<or> brake_resistor_armed m)
           \<and> error (snd (arm B law m)) = error m
           \<and> error_writes (snd (arm B law m)) = error_writes m"
    by (cases law) (auto simp add: arm_def Let_def called_def law_reset_def split: law_ptr.splits)
  have 4: "motor_type (config m) = MOTOR_TYPE_HIGH_CURRENT \<or> motor_type (config m) = MOTOR_TYPE_ACIM
        \<longrightarrow> \<not> is_armed (snd (run_calibration B osDelay_R osDelay_L a b m))"
    using run_calibration_disarmed [of m B osDelay_R osDelay_L a b] by blast
  have 5: "motor_type (config m) \<noteq> MOTOR_TYPE_HIGH_CURRENT \<and> motor_type (config m) \<noteq> MOTOR_TYPE_ACIM
        \<longrightarrow> is_armed (snd (run_calibration B osDelay_R osDelay_L a b m)) = is_armed m
          \<and> error (snd (run_calibration B osDelay_R osDelay_L a b m)) = error m
          \<and> error_writes (snd (run_calibration B osDelay_R osDelay_L a b m)) = error_writes m"
    using run_calibration_not_calibrated [of m B osDelay_R osDelay_L a b] by blast
  have 6: "\<not> is_armed (disarm_with_error B e m)
   \<and> error (disarm_with_error B e m) = error m \<union> e
   \<and> error_writes (disarm_with_error B e m) = error_writes m @ [e]
   \<and> \<not> is_armed (snd (snd (disarm B p m)))
   \<and> error (snd (snd (disarm B p m))) = error m
   \<and> error_writes (snd (snd (disarm B p m))) = error_writes m"
    by (simp add: disarm_with_error_state disarm_state)
  show ?thesis
    using 1 2 3 4 5 6
      stays_safe_tim_update_cb [of m B adc_a adc_b adc_c]
      stays_safe_apply_pwm_timings [of m B timings tentative]
      apply_pwm_timings_writes(1) [of B timings tentative m]
      apply_pwm_timings_writes(3) [of B timings tentative m]
      stays_safe_do_checks [of m B ts]
      do_checks_writes(1) [of B ts m]
      do_checks_writes(3) [of B ts m]
    by blast
qed

text \<open>
  The claim as stated fails: \<^verbatim>\<open>arm\<close> called with a gate-driver fault pending leaves
  the motor armed with a nonzero error mask, and so does \<^verbatim>\<open>measure_phase_resistance\<close>
  while it polls: the thread that runs during its first delay finds the motor armed
  with the fault pending.
\<close>

theorem arm_ignores_error_counterexample:
  "error M_fault \<noteq> ERROR_NONE
   \<and> is_armed (snd (arm B0 None M_fault))
   \<and> error (snd (arm B0 None M_fault)) \<noteq> ERROR_NONE
   \<and> requested_state (snd (measure_phase_resistance B0 watcher 0 (Fin 1) (Fin 2) M_fault))
       = AXIS_STATE_OTHER 1"
proof -
  have 1: "error M_fault \<noteq> ERROR_NONE \<and> is_armed (snd (arm B0 None M_fault))
           \<and> error (snd (arm B0 None M_fault)) \<noteq> ERROR_NONE"
    by (simp add: arm_def Let_def called_def M_fault_def M0_def)
  define m2 where "m2 = snd (arm B0 (Some (ResistanceLaw 0))
      (M_fault\<lparr>R_laws := (R_laws M_fault)(0 := ResistanceMeasurementCotnrolLaw_init
                  \<lparr>test_current := Fin 1, max_voltage := Fin 2\<rparr>)\<rparr>))"
  have c: "requested_state m2 = AXIS_STATE_UNDEFINED" "is_armed m2" "error m2 \<noteq> ERROR_NONE"
    by (simp_all add: m2_def arm_def Let_def called_def law_reset_def M_fault_def M0_def)
  have n: "(3000::nat) = Suc 2999" by simp
  have s: "poll 2999 (Suc 0) watcher (watcher 0 m2) = watcher 0 m2"
    by (rule poll_break) (simp add: watcher_def)
  have "poll (Suc 2999) 0 watcher m2 = poll 2999 (Suc 0) watcher (watcher 0 m2)"
    using c by (simp only: poll.simps simp_thms if_False)
  then have p: "poll 3000 0 watcher m2 = watcher 0 m2"
    by (simp only: n s)
  have "requested_state (snd (measure_phase_resistance B0 watcher 0 (Fin 1) (Fin 2) M_fault))
          = requested_state (poll 3000 0 watcher m2)"
    unfolding measure_phase_resistance_def Let_def m2_def [symmetric]
    by (simp add: disarm_state disarm_with_error_state)
  also have "\<dots> = AXIS_STATE_OTHER 1"
    using c by (simp add: p watcher_def)
  finally show ?thesis
    using 1 by simp
qed

text \<open>
  An armed motor without errors stays armed, with the same error mask and without a
  write, through a current-sense half with samples at mid-scale.  A commit of PWM
  timings on an armed motor whose deadline-missed flag is already pending, with the
  update flag set, writes the flag again and disarms.  A failed gate-driver check
  disarms.  \<^verbatim>\<open>run_calibration\<close> leaves a high-current motor disarmed and does not arm
  a gimbal motor.
\<close>

theorem error_writes_disarm_witness:
  "is_armed (tim_update_cb B0 2048 2048 2048 M_armed)
   \<and> is_armed M_armed
   \<and> error (tim_update_cb B0 2048 2048 2048 M_armed) = error M_armed
   \<and> error_writes (tim_update_cb B0 2048 2048 2048 M_armed) = error_writes M_armed
   \<and> error M_pending = ERROR_CONTROL_DEADLINE_MISSED
   \<and> is_armed M_pending
   \<and> error_writes (apply_pwm_timings B0 (1750, 1750, 1750) False M_pending)
       = [ERROR_CONTROL_DEADLINE_MISSED]
   \<and> \<not> is_armed (apply_pwm_timings B0 (1750, 1750, 1750) False M_pending)
   \<and> \<not> is_armed (snd (do_checks B0 0 (M_armed\<lparr>gate_driver_ready := False\<rparr>)))
   \<and> motor_type (config M0) = MOTOR_TYPE_HIGH_CURRENT
   \<and> \<not> is_armed (snd (run_calibration B0 idle idle 0 1 M0))
   \<and> motor_type (config M_gimbal) = MOTOR_TYPE_GIMBAL
   \<and> \<not> is_armed (snd (run_calibration B0 idle idle 0 1 M_gimbal))"
proof -
  note T1 = error_writes_disarm [of M_armed B0 2048 2048 2048 "(1750, 1750, 1750)" False 0]
  note T2 = error_writes_disarm [of M_pending B0 2048 2048 2048 "(1750, 1750, 1750)" False 0]
  note T3 = error_writes_disarm [of "M_armed\<lparr>gate_driver_ready := False\<rparr>" B0 2048 2048 2048
              "(1750, 1750, 1750)" False 0]
  note T4 = error_writes_disarm [of M0 B0 2048 2048 2048 "(1750, 1750, 1750)" False 0
              ERROR_NONE nullptr idle 0 "Fin 0" "Fin 2" "Fin 2" idle idle 1]
  note T5 = error_writes_disarm [of M_gimbal B0 2048 2048 2048 "(1750, 1750, 1750)" False 0
              ERROR_NONE nullptr idle 0 "Fin 0" "Fin 2" "Fin 2" idle idle 1]
  have a: "is_armed (tim_update_cb B0 2048 2048 2048 M_armed)"
    by (rule M_armed_sense_cycle)
  have 1: "is_armed M_armed
           \<and> error (tim_update_cb B0 2048 2048 2048 M_armed) = error M_armed
           \<and> error_writes (tim_update_cb B0 2048 2048 2048 M_armed) = error_writes M_armed"
    by (rule stays_safe_armedD [OF T1 [THEN conjunct1] a])
  have f: "error M_pending = ERROR_CONTROL_DEADLINE_MISSED" "is_armed M_pending"
    "brake_resistor_armed M_pending" "HAL_TIM_GET_FLAG M_pending (TIM_FLAG_UPDATE B0)"
    "error_writes M_pending = []"
    by (simp_all add: M_pending_def M_latched_def M0_def B0_def HAL_TIM_GET_FLAG_def)
  have 2: "error_writes (apply_pwm_timings B0 (1750, 1750, 1750) False M_pending)
             = [ERROR_CONTROL_DEADLINE_MISSED]
           \<and> \<not> is_armed (apply_pwm_timings B0 (1750, 1750, 1750) False M_pending)"
    using T2 by (simp add: f)
  have 3: "\<not> is_armed (snd (do_checks B0 0 (M_armed\<lparr>gate_driver_ready := False\<rparr>)))"
    using T3 by simp
  have g: "motor_type (config M0) = MOTOR_TYPE_HIGH_CURRENT"
          "motor_type (config M_gimbal) = MOTOR_TYPE_GIMBAL" "\<not> is_armed M_gimbal"
    by (simp_all add: M_gimbal_def M0_def)
  have 4: "\<not> is_armed (snd (run_calibration B0 idle idle 0 1 M0))"
    using T4 g(1) by simp
  have 5: "\<not> is_armed (snd (run_calibration B0 idle idle 0 1 M_gimbal))"
    using T5 g(2) g(3) by simp
  show ?thesis
    using a 1 f(1) f(2) 2 3 g(1) g(2) 4 5 by simp
qed

text \<open>
  Claim C3.  The claim has \<^verbatim>\<open>update_brake_current\<close> called after the critical section
  of \<^verbatim>\<open>disarm\<close> only if the motor had been armed.  The code tests the pointer
  \<^verbatim>\<open>was_armed\<close>, which is never null at that point, so the call is made on every
  \<^verbatim>\<open>disarm\<close>, armed or not: once by \<^verbatim>\<open>disarm\<close> and once more by \<^verbatim>\<open>disarm_with_error\<close>.
  Only the call to the gate driver depends on the armed flag.
\<close>

theorem disarm_brake_update:
  "calls (snd (snd (disarm B p m))) =
     calls m @ (if is_armed m then [GATE_DRIVER_SET_ENABLED False] else []) @ [UPDATE_BRAKE_CURRENT]
   \<and> calls (disarm_with_error B e m) =
     calls m @ (if is_armed m then [GATE_DRIVER_SET_ENABLED False] else [])
       @ [UPDATE_BRAKE_CURRENT, UPDATE_BRAKE_CURRENT]"
  by (simp add: disarm_state disarm_with_error_state)

text \<open>On the disarmed motor \<open>M0\<close>, each \<^verbatim>\<open>disarm()\<close> calls \<^verbatim>\<open>update_brake_current\<close> again.\<close>

lemma disarm_disarmed_example:
  "\<not> is_armed M0
   \<and> calls (snd (snd (disarm B0 nullptr M0))) = [UPDATE_BRAKE_CURRENT]
   \<and> calls (snd (snd (disarm B0 nullptr (snd (snd (disarm B0 nullptr M0))))))
       = [UPDATE_BRAKE_CURRENT, UPDATE_BRAKE_CURRENT]"
  by (simp add: disarm_state M0_def)

text \<open>
  Claim C4.  When the direction read from the timer equals the stored one,
  \<^verbatim>\<open>tim_update_cb\<close> advances the timestamp, disarms with the timer-update-missed error
  and does nothing else: the measured currents, the leak current, the DC calibration,
  the bus current, the compare registers, the control-law objects, the timing log
  and the stored direction are as before, and the only calls that leave the file are
  those of the disarm.
\<close>

theorem tim_update_cb_missed:
  assumes "counting_down m = (CR1 (timer m) AND TIM_CR1_DIR B \<noteq> 0)"
  shows "tim_update_cb B adc_a adc_b adc_c m =
           disarm_with_error B ERROR_TIMER_UPDATE_MISSED
             (m\<lparr>last_update_timestamp := last_update_timestamp m
                    + of_nat (TIM_1_8_PERIOD_CLOCKS B * (TIM_1_8_RCR B + 1))\<rparr>)
         \<and> current_meas (tim_update_cb B adc_a adc_b adc_c m) = current_meas m
         \<and> I_leak (tim_update_cb B adc_a adc_b adc_c m) = I_leak m
         \<and> DC_calib (tim_update_cb B adc_a adc_b adc_c m) = DC_calib m
         \<and> dc_calib_running_since (tim_update_cb B adc_a adc_b adc_c m) = dc_calib_running_since m
         \<and> I_bus (tim_update_cb B adc_a adc_b adc_c m) = I_bus m
         \<and> CCR1 (timer (tim_update_cb B adc_a adc_b adc_c m)) = CCR1 (timer m)
         \<and> CCR2 (timer (tim_update_cb B adc_a adc_b adc_c m)) = CCR2 (timer m)
         \<and> CCR3 (timer (tim_update_cb B adc_a adc_b adc_c m)) = CCR3 (timer m)
         \<and> R_laws (tim_update_cb B adc_a adc_b adc_c m) = R_laws m
         \<and> L_laws (tim_update_cb B adc_a adc_b adc_c m) = L_laws m
         \<and> X_laws (tim_update_cb B adc_a adc_b adc_c m) = X_laws m
         \<and> timing_log (tim_update_cb B adc_a adc_b adc_c m) = timing_log m
         \<and> counting_down (tim_update_cb B adc_a adc_b adc_c m) = counting_down m
         \<and> \<not> is_armed (tim_update_cb B adc_a adc_b adc_c m)
         \<and> error (tim_update_cb B adc_a adc_b adc_c m) = error m \<union> ERROR_TIMER_UPDATE_MISSED
         \<and> calls (tim_update_cb B adc_a adc_b adc_c m) =
             calls m @ (if is_armed m then [GATE_DRIVER_SET_ENABLED False] else [])
             @ [UPDATE_BRAKE_CURRENT, UPDATE_BRAKE_CURRENT]"
proof -
  have "tim_update_cb B adc_a adc_b adc_c m =
           disarm_with_error B ERROR_TIMER_UPDATE_MISSED
             (m\<lparr>last_update_timestamp := last_update_timestamp m
                    + of_nat (TIM_1_8_PERIOD_CLOCKS B * (TIM_1_8_RCR B + 1))\<rparr>)"
    using assms by (simp add: tim_update_cb_def Let_def)
  then show ?thesis
    by (simp add: disarm_with_error_state)
qed

text \<open>The direction bit is set and was set at the previous call.\<close>

theorem tim_update_cb_missed_witness:
  "counting_down M_missed = (CR1 (timer M_missed) AND TIM_CR1_DIR B0 \<noteq> 0)
   \<and> \<not> is_armed (tim_update_cb B0 2048 2048 2048 M_missed)
   \<and> error (tim_update_cb B0 2048 2048 2048 M_missed) = ERROR_TIMER_UPDATE_MISSED
   \<and> DC_calib (tim_update_cb B0 2048 2048 2048 M_missed) = DC_calib M_missed
   \<and> current_meas (tim_update_cb B0 2048 2048 2048 M_missed) = current_meas M_missed
   \<and> I_bus (tim_update_cb B0 2048 2048 2048 M_missed) = I_bus M_missed
   \<and> calls (tim_update_cb B0 2048 2048 2048 M_missed) = [UPDATE_BRAKE_CURRENT, UPDATE_BRAKE_CURRENT]"
proof -
  have h: "counting_down M_missed = (CR1 (timer M_missed) AND TIM_CR1_DIR B0 \<noteq> 0)"
    by (simp add: M_missed_def M0_def B0_def)
  have e: "error M_missed = {}" "\<not> is_armed M_missed" "calls M_missed = []"
    by (simp_all add: M_missed_def M0_def)
  show ?thesis
    using tim_update_cb_missed [OF h, of 2048 2048 2048]
    by (simp add: h e disarm_with_error_state)
qed

text \<open>
  Claim C5, as amended.  \<^verbatim>\<open>on_measurement\<close> of the resistance law returns an error
  whenever the bus voltage is not-a-number, and it returns the
  phase-resistance-out-of-range error whenever the alpha current is infinite, for a
  law whose test voltage, test current and voltage limit are finite and a measurement
  period that is finite and positive.  \<^verbatim>\<open>on_measurement\<close> of the inductance law
  returns the unknown-bus-voltage error whenever the alpha current or the bus voltage
  is not-a-number.
\<close>

theorem on_measurement_nan:
  "(isnan vbus \<longrightarrow> fst (R_on_measurement B r vbus Ialpha Ibeta ts) \<noteq> ERROR_NONE)
   \<and> ((Ialpha = PInf \<or> Ialpha = NInf)
        \<and> isfinite (test_voltage r) \<and> isfinite (test_current r) \<and> isfinite (max_voltage r)
        \<and> isfinite (current_meas_period B) \<and> Fin 0 < current_meas_period B
      \<longrightarrow> fst (R_on_measurement B r vbus Ialpha Ibeta ts) = ERROR_PHASE_RESISTANCE_OUT_OF_RANGE)
   \<and> (isnan Ialpha \<or> isnan vbus \<longrightarrow>
        fst (L_on_measurement l vbus Ialpha Ibeta ts) = ERROR_UNKNOWN_VBUS_VOLTAGE)"
proof -
  have 1: "isnan vbus \<longrightarrow> fst (R_on_measurement B r vbus Ialpha Ibeta ts) \<noteq> ERROR_NONE"
    by (simp add: R_on_measurement_def Let_def)
  have 2: "fst (R_on_measurement B r vbus Ialpha Ibeta ts) = ERROR_PHASE_RESISTANCE_OUT_OF_RANGE"
    if i: "Ialpha = PInf \<or> Ialpha = NInf"
      and f: "isfinite (test_voltage r)" "isfinite (test_current r)" "isfinite (max_voltage r)"
        "isfinite (current_meas_period B)" "Fin 0 < current_meas_period B"
  proof -
    obtain v c x p where e: "test_voltage r = Fin v" "test_current r = Fin c"
      "max_voltage r = Fin x" "current_meas_period B = Fin p"
      using f by (cases "test_voltage r"; cases "test_current r"; cases "max_voltage r";
                  cases "current_meas_period B") simp_all
    have p: "0 < p" using f(5) e(4) by simp
    then have q: "10 * p \<noteq> 0" "0 < 10 * p" by simp_all
    show ?thesis
      using i q by (auto simp add: R_on_measurement_def Let_def e kI_def minus_float_def)
  qed
  have 3: "isnan Ialpha \<or> isnan vbus \<longrightarrow>
        fst (L_on_measurement l vbus Ialpha Ibeta ts) = ERROR_UNKNOWN_VBUS_VOLTAGE"
    by (simp add: L_on_measurement_def Let_def)
  show ?thesis
    using 1 2 3 by blast
qed

text \<open>
  The claim as stated fails.  The resistance law returns no error for an alpha
  current that is not-a-number; neither law returns an error for an infinite bus
  voltage; the inductance law returns no error for an infinite alpha current; and the
  resistance law returns no error for an infinite alpha current when its voltage limit
  is infinite.
\<close>

theorem on_measurement_not_finite_counterexample:
  "\<not> isfinite NaN
   \<and> fst (R_on_measurement B0
            (ResistanceMeasurementCotnrolLaw_init\<lparr>test_current := Fin 1, max_voltage := Fin 2\<rparr>)
            (Fin 24) NaN (Fin 0) 0) = ERROR_NONE
   \<and> \<not> isfinite PInf
   \<and> fst (L_on_measurement InductanceMeasurementCotnrolLaw_init PInf (Fin 0) (Fin 0) 0) = ERROR_NONE
   \<and> fst (R_on_measurement B0
            (ResistanceMeasurementCotnrolLaw_init\<lparr>test_current := Fin 1, max_voltage := Fin 2\<rparr>)
            PInf (Fin 1) (Fin 0) 0) = ERROR_NONE
   \<and> fst (L_on_measurement InductanceMeasurementCotnrolLaw_init (Fin 24) PInf (Fin 0) 0) = ERROR_NONE
   \<and> fst (R_on_measurement B0
            (ResistanceMeasurementCotnrolLaw_init\<lparr>test_current := Fin 1, max_voltage := PInf\<rparr>)
            (Fin 24) PInf (Fin 0) 0) = ERROR_NONE"
  by (simp add: R_on_measurement_def L_on_measurement_def ResistanceMeasurementCotnrolLaw_init_def
        InductanceMeasurementCotnrolLaw_init_def Let_def kI_def B0_def minus_float_def)

text \<open>
  A bus voltage that is not-a-number, an infinite alpha current, and an alpha current
  that is not-a-number.
\<close>

theorem on_measurement_nan_witness:
  "isnan NaN
   \<and> fst (R_on_measurement B0 ResistanceMeasurementCotnrolLaw_init NaN (Fin 0) (Fin 0) 0) \<noteq> ERROR_NONE
   \<and> isfinite (test_voltage ResistanceMeasurementCotnrolLaw_init)
   \<and> isfinite (test_current ResistanceMeasurementCotnrolLaw_init)
   \<and> isfinite (max_voltage ResistanceMeasurementCotnrolLaw_init)
   \<and> isfinite (current_meas_period B0) \<and> Fin 0 < current_meas_period B0
   \<and> fst (R_on_measurement B0 ResistanceMeasurementCotnrolLaw_init (Fin 24) NInf (Fin 0) 0)
       = ERROR_PHASE_RESISTANCE_OUT_OF_RANGE
   \<and> fst (L_on_measurement InductanceMeasurementCotnrolLaw_init (Fin 24) NaN (Fin 0) 0)
       = ERROR_UNKNOWN_VBUS_VOLTAGE"
proof -
  have f: "isfinite (test_voltage ResistanceMeasurementCotnrolLaw_init)"
    "isfinite (test_current ResistanceMeasurementCotnrolLaw_init)"
    "isfinite (max_voltage ResistanceMeasurementCotnrolLaw_init)"
    "isfinite (current_meas_period B0)" "Fin 0 < current_meas_period B0"
    by (simp_all add: ResistanceMeasurementCotnrolLaw_init_def B0_def)
  show ?thesis
    using f
      on_measurement_nan [of NaN B0 ResistanceMeasurementCotnrolLaw_init "Fin 0" "Fin 0" 0]
      on_measurement_nan [of "Fin 24" B0 ResistanceMeasurementCotnrolLaw_init NInf "Fin 0" 0]
      on_measurement_nan [of "Fin 24" B0 ResistanceMeasurementCotnrolLaw_init NaN "Fin 0" 0
                             InductanceMeasurementCotnrolLaw_init]
    by simp
qed

text \<open>
  Claim C6, as amended.  In a cycle that is not a missed update and in which the timer
  counts down, the offsets and the elapsed calibration time are reset to zero when a
  phase current is not-a-number, and otherwise each offset moves towards the sample
  with gain \<open>min (2 * interrupt_period / tau) 1\<close> and the elapsed time grows by
  \<open>2 * interrupt_period\<close>.  In a cycle in which the timer counts up they are left as
  they are.
\<close>

theorem dc_calibration:
  assumes "counting_down m \<noteq> (CR1 (timer m) AND TIM_CR1_DIR B \<noteq> 0)"
  shows "DC_calib (tim_update_cb B adc_a adc_b adc_c m) =
           (if CR1 (timer m) AND TIM_CR1_DIR B \<noteq> 0 then
              (if current_valid (fst (read_currents B adc_a adc_b adc_c m)) then
                 \<lparr>phA = phA (DC_calib m)
                         + (phA (fst (read_currents B adc_a adc_b adc_c m)) - phA (DC_calib m))
                           * std_min (Fin 2 * interrupt_period B / dc_calib_tau (config m)) (Fin 1),
                  phB = phB (DC_calib m)
                         + (phB (fst (read_currents B adc_a adc_b adc_c m)) - phB (DC_calib m))
                           * std_min (Fin 2 * interrupt_period B / dc_calib_tau (config m)) (Fin 1),
                  phC = phC (DC_calib m)
                         + (phC (fst (read_currents B adc_a adc_b adc_c m)) - phC (DC_calib m))
                           * std_min (Fin 2 * interrupt_period B / dc_calib_tau (config m)) (Fin 1)\<rparr>
               else \<lparr>phA = Fin 0, phB = Fin 0, phC = Fin 0\<rparr>)
            else DC_calib m)
         \<and> dc_calib_running_since (tim_update_cb B adc_a adc_b adc_c m) =
           (if CR1 (timer m) AND TIM_CR1_DIR B \<noteq> 0 then
              (if current_valid (fst (read_currents B adc_a adc_b adc_c m))
               then dc_calib_running_since m + Fin 2 * interrupt_period B
               else Fin 0)
            else dc_calib_running_since m)"
  by (simp add: tim_update_cb_dc_calib [OF assms] dc_calib_update_fields)

text \<open>
  The claim as stated fails: in a counting-up cycle with phase A unavailable the
  offsets and the elapsed time keep their values, and in a counting-down cycle with
  three infinite phase currents the offsets become infinite instead of zero.
\<close>

theorem dc_calibration_every_cycle_counterexample:
  "\<not> current_valid (fst (read_currents B0 0xffffffff 2048 2048 M0))
   \<and> DC_calib (tim_update_cb B0 0xffffffff 2048 2048 M0)
       = \<lparr>phA = Fin (1 / 128), phB = Fin (1 / 64), phC = Fin (- (1 / 128))\<rparr>
   \<and> dc_calib_running_since (tim_update_cb B0 0xffffffff 2048 2048 M0) = Fin (1 / 4)
   \<and> \<not> isfinite (phA (fst (read_currents B0 2049 2049 2049 M_inf_gain)))
   \<and> DC_calib (tim_update_cb B0 2049 2049 2049 M_inf_gain) = \<lparr>phA = PInf, phB = PInf, phC = PInf\<rparr>"
proof -
  have h: "counting_down M0 \<noteq> (CR1 (timer M0) AND TIM_CR1_DIR B0 \<noteq> 0)"
    by (simp add: M0_def B0_def)
  have d: "CR1 (timer M0) AND TIM_CR1_DIR B0 = 0"
    by (simp add: M0_def B0_def)
  have i: "\<not> current_valid (fst (read_currents B0 0xffffffff 2048 2048 M0))"
    by (simp add: fst_read_currents fst_check_adc adc_to_current_def infer_missing_def
        current_valid_def M0_def)
  have v: "DC_calib M0 = \<lparr>phA = Fin (1 / 128), phB = Fin (1 / 64), phC = Fin (- (1 / 128))\<rparr>"
          "dc_calib_running_since M0 = Fin (1 / 4)"
    by (simp_all add: M0_def)
  have 1: "DC_calib (tim_update_cb B0 0xffffffff 2048 2048 M0)
             = \<lparr>phA = Fin (1 / 128), phB = Fin (1 / 64), phC = Fin (- (1 / 128))\<rparr>"
          "dc_calib_running_since (tim_update_cb B0 0xffffffff 2048 2048 M0) = Fin (1 / 4)"
    by (simp_all add: tim_update_cb_dc_calib [OF h] d v)
  have h': "counting_down M_inf_gain \<noteq> (CR1 (timer M_inf_gain) AND TIM_CR1_DIR B0 \<noteq> 0)"
    by (simp add: M_inf_gain_def M_down_def M0_def B0_def)
  have d': "CR1 (timer M_inf_gain) AND TIM_CR1_DIR B0 \<noteq> 0"
    by (simp add: M_inf_gain_def M_down_def M0_def B0_def)
  have v': "DC_calib M_inf_gain = \<lparr>phA = Fin (1 / 128), phB = Fin (1 / 64), phC = Fin (- (1 / 128))\<rparr>"
           "dc_calib_tau (config M_inf_gain) = Fin (1 / 4)"
    by (simp_all add: M_inf_gain_def M_down_def M0_def)
  have p: "Fin 2 * interrupt_period B0 = Fin (1 / 8000)"
    by (simp add: interrupt_period_def B0_def)
  have cv: "current_valid \<lparr>phA = PInf, phB = PInf, phC = PInf\<rparr>"
    by (simp add: current_valid_def)
  have 2: "DC_calib (tim_update_cb B0 2049 2049 2049 M_inf_gain) = \<lparr>phA = PInf, phB = PInf, phC = PInf\<rparr>"
    by (simp add: tim_update_cb_dc_calib [OF h'] d' dc_calib_update_fields read_currents_M_inf_gain
          cv p v' std_min_def minus_float_def)
  show ?thesis
    using i 1 2 by (simp add: read_currents_M_inf_gain)
qed

text \<open>A counting-down cycle with phase A unavailable resets the calibration.\<close>

theorem dc_calibration_witness:
  "counting_down M_down \<noteq> (CR1 (timer M_down) AND TIM_CR1_DIR B0 \<noteq> 0)
   \<and> DC_calib (tim_update_cb B0 0xffffffff 2048 2048 M_down) = \<lparr>phA = Fin 0, phB = Fin 0, phC = Fin 0\<rparr>
   \<and> dc_calib_running_since (tim_update_cb B0 0xffffffff 2048 2048 M_down) = Fin 0"
proof -
  have h: "counting_down M_down \<noteq> (CR1 (timer M_down) AND TIM_CR1_DIR B0 \<noteq> 0)"
    by (simp add: M_down_def M0_def B0_def)
  have d: "CR1 (timer M_down) AND TIM_CR1_DIR B0 \<noteq> 0"
    by (simp add: M_down_def M0_def B0_def)
  show ?thesis
    using h dc_calibration [OF h, of "0xffffffff" 2048 2048]
    by (simp add: d read_currents_M_down_invalid)
qed

text \<open>
  Claim C7, as amended.  When the result \<open>test_voltage / test_current\<close> of the run is
  not-a-number, \<^verbatim>\<open>measure_phase_resistance\<close> returns false, the error mask holds the
  phase-resistance-out-of-range error and the motor is disarmed.
\<close>

theorem measure_phase_resistance_nan:
  assumes "isnan (get_resistance
            (R_laws (snd (measure_phase_resistance B osDelay a test_current_arg max_voltage_arg m)) a))"
  shows "fst (measure_phase_resistance B osDelay a test_current_arg max_voltage_arg m) = False
         \<and> ERROR_PHASE_RESISTANCE_OUT_OF_RANGE
             \<subseteq> error (snd (measure_phase_resistance B osDelay a test_current_arg max_voltage_arg m))
         \<and> \<not> is_armed (snd (measure_phase_resistance B osDelay a test_current_arg max_voltage_arg m))"
  using assms
  by (simp add: measure_phase_resistance_def Let_def disarm_state disarm_with_error_state
        split: if_splits)

text \<open>
  The claim as stated fails for an infinite result: with a test current of 0 and a
  test voltage driven to 1 V, the motor still armed after the 3000 polls, the routine
  returns true, sets no error and stores an infinite phase resistance.
\<close>

theorem measure_phase_resistance_infinite_counterexample:
  "\<not> isfinite (get_resistance
       (R_laws (snd (measure_phase_resistance B0 driven_to_1V 0 (Fin 0) (Fin 2) M0)) 0))
   \<and> fst (measure_phase_resistance B0 driven_to_1V 0 (Fin 0) (Fin 2) M0) = True
   \<and> error (snd (measure_phase_resistance B0 driven_to_1V 0 (Fin 0) (Fin 2) M0)) = ERROR_NONE
   \<and> phase_resistance (config (snd (measure_phase_resistance B0 driven_to_1V 0 (Fin 0) (Fin 2) M0)))
       = PInf"
proof -
  have f: "error M0 = {}" "phase_resistance (config M0) = Fin (1 / 8)"
    by (simp_all add: M0_def)
  show ?thesis
    by (simp add: measure_driven get_resistance_def f)
qed

text \<open>A run with test current 0 during which no interrupt is served: the result is 0 / 0.\<close>

theorem measure_phase_resistance_nan_witness:
  "isnan (get_resistance (R_laws (snd (measure_phase_resistance B0 idle 0 (Fin 0) (Fin 2) M0)) 0))
   \<and> fst (measure_phase_resistance B0 idle 0 (Fin 0) (Fin 2) M0) = False
   \<and> ERROR_PHASE_RESISTANCE_OUT_OF_RANGE
       \<subseteq> error (snd (measure_phase_resistance B0 idle 0 (Fin 0) (Fin 2) M0))"
proof -
  have h: "isnan (get_resistance (R_laws (snd (measure_phase_resistance B0 idle 0 (Fin 0) (Fin 2) M0)) 0))"
    by (simp add: measure_idle get_resistance_def)
  show ?thesis
    using h measure_phase_resistance_nan [OF h] by simp
qed

text \<open>
  Claim C8, as amended.  \<^verbatim>\<open>arm\<close> returns true in every state and for every control
  law, and the motor is armed afterwards if and only if it was armed before or the
  brake resistor is armed; for a motor that was disarmed the armed flag equals
  \<^verbatim>\<open>brake_resistor_armed\<close>.
\<close>

theorem arm_post:
  "fst (arm B law m) = True
   \<and> is_armed (snd (arm B law m)) = (is_armed m \<or> brake_resistor_armed m)"
  by (cases law) (auto simp add: arm_def Let_def called_def law_reset_def split: law_ptr.splits)

text \<open>
  The postcondition as stated fails: an armed motor stays armed when \<^verbatim>\<open>arm\<close> is called
  with the brake resistor disarmed.
\<close>

theorem arm_post_counterexample:
  "fst (arm B0 None M_brake_off) = True
   \<and> is_armed (snd (arm B0 None M_brake_off)) \<noteq> brake_resistor_armed (snd (arm B0 None M_brake_off))"
  by (simp add: arm_def Let_def called_def M_brake_off_def M0_def)

text \<open>
  Claim C9.  \<^verbatim>\<open>measure_phase_resistance\<close> and \<^verbatim>\<open>measure_phase_inductance\<close> store the
  computed result in the configuration whatever they return: after the call the
  configured phase resistance is \<^verbatim>\<open>get_resistance()\<close> of the control law of the run,
  and the configured phase inductance is \<^verbatim>\<open>get_inductance()\<close> of the control law of
  the run, for every run, failed or not.
\<close>

theorem measurement_overwrites_config:
  "phase_resistance (config (snd (measure_phase_resistance B osDelay a test_current_arg max_voltage_arg m)))
     = get_resistance (R_laws (snd (measure_phase_resistance B osDelay a test_current_arg max_voltage_arg m)) a)
   \<and> phase_inductance (config (snd (measure_phase_inductance B osDelay a test_voltage_arg m)))
     = get_inductance B (L_laws (snd (measure_phase_inductance B osDelay a test_voltage_arg m)) a)"
  by (simp add: measure_phase_resistance_def measure_phase_inductance_def Let_def
        disarm_state disarm_with_error_state)

text \<open>
  A failed run: the configured resistance of \<open>M0\<close> is replaced by not-a-number, and
  the routine returns false.
\<close>

lemma measurement_overwrites_config_failed_run:
  "phase_resistance (config M0) = Fin (1 / 8)
   \<and> fst (measure_phase_resistance B0 idle 0 (Fin 0) (Fin 2) M0) = False
   \<and> phase_resistance (config (snd (measure_phase_resistance B0 idle 0 (Fin 0) (Fin 2) M0))) = NaN"
proof -
  have "phase_resistance (config M0) = Fin (1 / 8)"
    by (simp add: M0_def)
  then show ?thesis
    by (simp add: measure_idle)
qed

text \<open>
  Claim C10.  The missing phase is inferred from the sensor mask alone.  With mask
  \<^verbatim>\<open>0b111\<close> and a phase marked unavailable (the sentinel, or a sample outside the
  window), nothing is inferred, the current of the cycle is invalid, and the cycle
  resets the DC calibration (counting down) or leaves the measured currents
  not-a-number (counting up).  With mask \<^verbatim>\<open>0b110\<close>, \<^verbatim>\<open>0b101\<close> or \<^verbatim>\<open>0b011\<close> the phase
  named by the mask is the negated sum of the other two, whatever its own sample was.
\<close>

theorem reconstruction_by_mask_only:
  "(current_sensor_mask m = 7
      \<and> (fst (check_adc B adc_a m) = 0xffffffff \<or> fst (check_adc B adc_b m) = 0xffffffff
          \<or> fst (check_adc B adc_c m) = 0xffffffff)
      \<longrightarrow> fst (read_currents B adc_a adc_b adc_c m) =
            \<lparr>phA = adc_to_current m (fst (check_adc B adc_a m)),
             phB = adc_to_current m (fst (check_adc B adc_b m)),
             phC = adc_to_current m (fst (check_adc B adc_c m))\<rparr>
          \<and> \<not> current_valid (fst (read_currents B adc_a adc_b adc_c m)))
   \<and> (current_sensor_mask m = 6 \<longrightarrow>
        phA (fst (read_currents B adc_a adc_b adc_c m)) =
          - (adc_to_current m (fst (check_adc B adc_b m)) + adc_to_current m (fst (check_adc B adc_c m))))
   \<and> (current_sensor_mask m = 5 \<longrightarrow>
        phB (fst (read_currents B adc_a adc_b adc_c m)) =
          - (adc_to_current m (fst (check_adc B adc_c m)) + adc_to_current m (fst (check_adc B adc_a m))))
   \<and> (current_sensor_mask m = 3 \<longrightarrow>
        phC (fst (read_currents B adc_a adc_b adc_c m)) =
          - (adc_to_current m (fst (check_adc B adc_a m)) + adc_to_current m (fst (check_adc B adc_b m))))
   \<and> (current_sensor_mask m = 7
      \<and> (fst (check_adc B adc_a m) = 0xffffffff \<or> fst (check_adc B adc_b m) = 0xffffffff
          \<or> fst (check_adc B adc_c m) = 0xffffffff)
      \<and> counting_down m \<noteq> (CR1 (timer m) AND TIM_CR1_DIR B \<noteq> 0)
      \<longrightarrow> (if CR1 (timer m) AND TIM_CR1_DIR B \<noteq> 0
           then DC_calib (tim_update_cb B adc_a adc_b adc_c m) = \<lparr>phA = Fin 0, phB = Fin 0, phC = Fin 0\<rparr>
           else current_meas (tim_update_cb B adc_a adc_b adc_c m) = \<lparr>phA = NaN, phB = NaN, phC = NaN\<rparr>))"
proof -
  let ?rc = "fst (read_currents B adc_a adc_b adc_c m)"
  have inv: "\<not> current_valid ?rc"
    and eq: "?rc = \<lparr>phA = adc_to_current m (fst (check_adc B adc_a m)),
             phB = adc_to_current m (fst (check_adc B adc_b m)),
             phC = adc_to_current m (fst (check_adc B adc_c m))\<rparr>"
    if "current_sensor_mask m = 7"
      and "fst (check_adc B adc_a m) = 0xffffffff \<or> fst (check_adc B adc_b m) = 0xffffffff
          \<or> fst (check_adc B adc_c m) = 0xffffffff"
  proof -
    show e: "?rc = \<lparr>phA = adc_to_current m (fst (check_adc B adc_a m)),
             phB = adc_to_current m (fst (check_adc B adc_b m)),
             phC = adc_to_current m (fst (check_adc B adc_c m))\<rparr>"
      using that(1) by (simp add: fst_read_currents infer_missing_def)
    show "\<not> current_valid ?rc"
      unfolding e using that(2) by (auto simp add: current_valid_def adc_to_current_def)
  qed
  have cyc: "if CR1 (timer m) AND TIM_CR1_DIR B \<noteq> 0
           then DC_calib (tim_update_cb B adc_a adc_b adc_c m) = \<lparr>phA = Fin 0, phB = Fin 0, phC = Fin 0\<rparr>
           else current_meas (tim_update_cb B adc_a adc_b adc_c m) = \<lparr>phA = NaN, phB = NaN, phC = NaN\<rparr>"
    if i: "\<not> current_valid ?rc"
      and nm: "counting_down m \<noteq> (CR1 (timer m) AND TIM_CR1_DIR B \<noteq> 0)"
  proof (cases "CR1 (timer m) AND TIM_CR1_DIR B \<noteq> 0")
    case True
    then show ?thesis
      using i by (simp add: tim_update_cb_dc_calib [OF nm] dc_calib_update_fields)
  next
    case False
    then have F: "CR1 (timer m) AND TIM_CR1_DIR B = 0" by simp
    with nm have cd: "counting_down m" by simp
    show ?thesis
      using False by (simp add: tim_update_cb_invalid_sense [OF cd F i])
  qed
  have m6: "current_sensor_mask m = 6 \<Longrightarrow>
        phA ?rc = - (adc_to_current m (fst (check_adc B adc_b m)) + adc_to_current m (fst (check_adc B adc_c m)))"
    by (simp add: fst_read_currents infer_missing_def)
  have m5: "current_sensor_mask m = 5 \<Longrightarrow>
        phB ?rc = - (adc_to_current m (fst (check_adc B adc_c m)) + adc_to_current m (fst (check_adc B adc_a m)))"
    by (simp add: fst_read_currents infer_missing_def)
  have m3: "current_sensor_mask m = 3 \<Longrightarrow>
        phC ?rc = - (adc_to_current m (fst (check_adc B adc_a m)) + adc_to_current m (fst (check_adc B adc_b m)))"
    by (simp add: fst_read_currents infer_missing_def)
  show ?thesis
    using inv eq cyc m6 m5 m3 by blast
qed

text \<open>
  Three sensors, sample A above the window: phase A is not-a-number and the
  current-sense half leaves the measured currents not-a-number.  Two sensors (mask
  \<^verbatim>\<open>0b110\<close>), all samples at mid-scale: phase A is the negated sum of B and C.
\<close>

theorem reconstruction_by_mask_only_witness:
  "current_sensor_mask M0 = 7
   \<and> fst (check_adc B0 4000 M0) = 0xffffffff
   \<and> counting_down M0 \<noteq> (CR1 (timer M0) AND TIM_CR1_DIR B0 \<noteq> 0)
   \<and> \<not> current_valid (fst (read_currents B0 4000 2048 2048 M0))
   \<and> phA (fst (read_currents B0 4000 2048 2048 M0)) = NaN
   \<and> current_meas (tim_update_cb B0 4000 2048 2048 M0) = \<lparr>phA = NaN, phB = NaN, phC = NaN\<rparr>
   \<and> current_sensor_mask (M0\<lparr>current_sensor_mask := 6\<rparr>) = 6
   \<and> phA (fst (read_currents B0 2048 2048 2048 (M0\<lparr>current_sensor_mask := 6\<rparr>))) = Fin 0"
proof -
  have a: "current_sensor_mask M0 = 7" by (simp add: M0_def)
  have b: "fst (check_adc B0 4000 M0) = 0xffffffff" by (simp add: check_adc_def B0_def)
  have c: "counting_down M0 \<noteq> (CR1 (timer M0) AND TIM_CR1_DIR B0 \<noteq> 0)"
    by (simp add: M0_def B0_def)
  have d: "CR1 (timer M0) AND TIM_CR1_DIR B0 = 0" by (simp add: M0_def B0_def)
  have e: "adc_to_current (M0\<lparr>current_sensor_mask := 6\<rparr>) (fst (check_adc B0 2048 (M0\<lparr>current_sensor_mask := 6\<rparr>)))
             = Fin 0"
    by (simp add: check_adc_def B0_def adc_to_current_def phase_current_from_adcval_def M0_def)
  note T1 = reconstruction_by_mask_only [of M0 B0 4000 2048 2048]
  note T2 = reconstruction_by_mask_only [of "M0\<lparr>current_sensor_mask := 6\<rparr>" B0 2048 2048 2048]
  have 1: "fst (read_currents B0 4000 2048 2048 M0) =
            \<lparr>phA = adc_to_current M0 (fst (check_adc B0 4000 M0)),
             phB = adc_to_current M0 (fst (check_adc B0 2048 M0)),
             phC = adc_to_current M0 (fst (check_adc B0 2048 M0))\<rparr>
          \<and> \<not> current_valid (fst (read_currents B0 4000 2048 2048 M0))"
    using T1 [THEN conjunct1] a b by blast
  have 2: "phA (fst (read_currents B0 4000 2048 2048 M0)) = NaN"
    by (simp add: 1 b adc_to_current_def)
  have 3: "current_meas (tim_update_cb B0 4000 2048 2048 M0) = \<lparr>phA = NaN, phB = NaN, phC = NaN\<rparr>"
    using T1 [THEN conjunct2, THEN conjunct2, THEN conjunct2, THEN conjunct2] a b c d by simp
  have 4: "current_sensor_mask (M0\<lparr>current_sensor_mask := 6\<rparr>) = 6" by simp
  have 5: "phA (fst (read_currents B0 2048 2048 2048 (M0\<lparr>current_sensor_mask := 6\<rparr>))) = Fin 0"
    using T2 [THEN conjunct2, THEN conjunct1] 4 by (simp add: e)
  show ?thesis
    using a b c 1 2 3 4 5 by blast
qed

end
